theory Spec2Isabelle
  imports Complex_Main
begin

section \<open>Values\<close>

text \<open>
  The simulator computes with Python floats and numpy float64 values. A finite value is
  represented by the real number it stands for: rounding, overflow, underflow and the sign
  of zero are outside this model. The non-finite results that numpy produces instead of
  raising (\<open>inf\<close>, \<open>-inf\<close>, \<open>nan\<close>, each with a RuntimeWarning only) are values of
  the model, and so is the complex result of Python's power operator on a negative base,
  kept as the single value \<open>Cplx\<close> (a value of complex type, whatever its parts).
\<close>

datatype npval = Fin real | PInf | NInf | NaN | Cplx

datatype py_error = ZeroDivisionError | TypeError

text \<open>Python's \<open>a / b\<close> on two floats raises on a zero divisor.\<close>

definition py_div :: "real \<Rightarrow> real \<Rightarrow> py_error + real" where
  "py_div a b = (if b = 0 then Inl ZeroDivisionError else Inr (a / b))"

text \<open>
  Python's \<open>x ** 0.5\<close> on a float: the square root for \<open>x \<ge> 0\<close>, a complex number
  for \<open>x < 0\<close>.
\<close>

definition py_pow_half :: "real \<Rightarrow> npval" where
  "py_pow_half x = (if x < 0 then Cplx else Fin (sqrt x))"

fun np_neg :: "npval \<Rightarrow> npval" where
  "np_neg (Fin x) = Fin (- x)"
| "np_neg PInf = NInf"
| "np_neg NInf = PInf"
| "np_neg NaN = NaN"
| "np_neg Cplx = Cplx"

fun np_add :: "npval \<Rightarrow> npval \<Rightarrow> npval" where
  "np_add Cplx _ = Cplx"
| "np_add _ Cplx = Cplx"
| "np_add NaN _ = NaN"
| "np_add _ NaN = NaN"
| "np_add (Fin x) (Fin y) = Fin (x + y)"
| "np_add (Fin x) PInf = PInf"
| "np_add (Fin x) NInf = NInf"
| "np_add PInf (Fin y) = PInf"
| "np_add NInf (Fin y) = NInf"
| "np_add PInf PInf = PInf"
| "np_add NInf NInf = NInf"
| "np_add PInf NInf = NaN"
| "np_add NInf PInf = NaN"

definition np_sub :: "npval \<Rightarrow> npval \<Rightarrow> npval" where
  "np_sub a b = np_add a (np_neg b)"

text \<open>The sign of an infinite product; zero times infinity is \<open>nan\<close>.\<close>

definition inf_signed :: "real \<Rightarrow> npval" where
  "inf_signed s = (if 0 < s then PInf else if s < 0 then NInf else NaN)"

fun np_mul :: "npval \<Rightarrow> npval \<Rightarrow> npval" where
  "np_mul Cplx _ = Cplx"
| "np_mul _ Cplx = Cplx"
| "np_mul NaN _ = NaN"
| "np_mul _ NaN = NaN"
| "np_mul (Fin x) (Fin y) = Fin (x * y)"
| "np_mul (Fin x) PInf = inf_signed x"
| "np_mul (Fin x) NInf = inf_signed (- x)"
| "np_mul PInf (Fin y) = inf_signed y"
| "np_mul NInf (Fin y) = inf_signed (- y)"
| "np_mul PInf PInf = PInf"
| "np_mul NInf NInf = PInf"
| "np_mul PInf NInf = NInf"
| "np_mul NInf PInf = NInf"

text \<open>
  numpy's division of two finite values: a zero divisor gives an infinity of the sign of
  the dividend, and \<open>0 / 0\<close> gives \<open>nan\<close>; nothing is raised.
\<close>

definition np_divide :: "real \<Rightarrow> real \<Rightarrow> npval" where
  "np_divide a b = (if b = 0 then inf_signed a else Fin (a / b))"

text \<open>
  \<open>np.log\<close>: \<open>-inf\<close> at zero and \<open>nan\<close> below it. (HOL's \<open>ln\<close> is total and
  returns a number there, so the domain is written out.)
\<close>

fun np_log :: "npval \<Rightarrow> npval" where
  "np_log (Fin x) = (if 0 < x then Fin (ln x) else if x = 0 then NInf else NaN)"
| "np_log PInf = PInf"
| "np_log NInf = NaN"
| "np_log NaN = NaN"
| "np_log Cplx = Cplx"

text \<open>\<open>np.maximum\<close> propagates \<open>nan\<close>.\<close>

fun np_maximum :: "npval \<Rightarrow> npval \<Rightarrow> npval" where
  "np_maximum Cplx _ = Cplx"
| "np_maximum _ Cplx = Cplx"
| "np_maximum NaN _ = NaN"
| "np_maximum _ NaN = NaN"
| "np_maximum (Fin x) (Fin y) = Fin (max x y)"
| "np_maximum PInf _ = PInf"
| "np_maximum _ PInf = PInf"
| "np_maximum NInf b = b"
| "np_maximum a NInf = a"

text \<open>
  \<open>np.linspace(start, stop, num)\<close> with the end point included: the multiples of one
  step added to \<open>start\<close>, and the last sample set to \<open>stop\<close>.
\<close>

definition np_linspace :: "real \<Rightarrow> real \<Rightarrow> nat \<Rightarrow> real list" where
  "np_linspace start stop num =
     (if num = 0 then []
      else if num = 1 then [start]
      else (let step = (stop - start) / real (num - 1);
                y = map (\<lambda>k. real k * step + start) [0..<num]
            in y[num - 1 := stop]))"

section \<open>Float64 rounding\<close>

text \<open>
  The exact numbers above leave rounding out. Where a result being finite is at stake the
  rounding decides, so float64 arithmetic is defined as well: the result of an operation is
  the exact result rounded to the nearest double, ties to the even significand, with 53
  significant bits down to the exponent \<open>-1022\<close>, multiples of \<open>2 ^ -1074\<close> below it,
  and an infinity once the rounded magnitude reaches \<open>2 ^ 1024\<close>. The sign of a zero
  result is not kept.
\<close>

definition round_half_even :: "real \<Rightarrow> int" where
  "round_half_even x =
     (let f = \<lfloor>x\<rfloor>; r = x - of_int f
      in if r < 1 / 2 then f
         else if 1 / 2 < r then f + 1
         else if even f then f else f + 1)"

definition f64_round :: "real \<Rightarrow> npval" where
  "f64_round x =
     (if x = 0 then Fin 0
      else (let e = max (\<lfloor>log 2 \<bar>x\<bar>\<rfloor> - 52) (- 1074);
                y = of_int (round_half_even (x / 2 powi e)) * 2 powi e
            in if 2 ^ 1024 \<le> \<bar>y\<bar> then inf_signed x else Fin y))"

text \<open>Rounding the finite result of an operation; \<open>inf\<close> and \<open>nan\<close> stay.\<close>

definition f64_norm :: "npval \<Rightarrow> npval" where
  "f64_norm v = (case v of Fin x \<Rightarrow> f64_round x | _ \<Rightarrow> v)"

text \<open>numpy's division and \<open>np.minimum\<close> on all values, before rounding.\<close>

fun np_true_divide :: "npval \<Rightarrow> npval \<Rightarrow> npval" where
  "np_true_divide Cplx _ = Cplx"
| "np_true_divide _ Cplx = Cplx"
| "np_true_divide NaN _ = NaN"
| "np_true_divide _ NaN = NaN"
| "np_true_divide (Fin x) (Fin y) = np_divide x y"
| "np_true_divide (Fin x) PInf = Fin 0"
| "np_true_divide (Fin x) NInf = Fin 0"
| "np_true_divide PInf (Fin y) = (if y < 0 then NInf else PInf)"
| "np_true_divide NInf (Fin y) = (if y < 0 then PInf else NInf)"
| "np_true_divide PInf PInf = NaN"
| "np_true_divide PInf NInf = NaN"
| "np_true_divide NInf PInf = NaN"
| "np_true_divide NInf NInf = NaN"

fun np_minimum :: "npval \<Rightarrow> npval \<Rightarrow> npval" where
  "np_minimum Cplx _ = Cplx"
| "np_minimum _ Cplx = Cplx"
| "np_minimum NaN _ = NaN"
| "np_minimum _ NaN = NaN"
| "np_minimum (Fin x) (Fin y) = Fin (min x y)"
| "np_minimum NInf _ = NInf"
| "np_minimum _ NInf = NInf"
| "np_minimum PInf b = b"
| "np_minimum a PInf = a"

text \<open>
  Python's \<open>a / b\<close> on two floats, one of which may be infinite: a zero divisor raises,
  anything else is the rounded quotient.
\<close>

definition py_div_f64 :: "npval \<Rightarrow> npval \<Rightarrow> py_error + npval" where
  "py_div_f64 a b =
     (if b = Fin 0 then Inl ZeroDivisionError else Inr (f64_norm (np_true_divide a b)))"

section \<open>Physical constants and parameters\<close>

record FuelCellParameters =
  R :: real
  F :: real
  T :: real
  P_H2 :: real
  P_O2 :: real
  alpha :: real
  area_resistance :: real
  i_limit :: real

text \<open>The body of \<open>FuelCellParameters.__init__\<close>.\<close>

definition FuelCellParameters_init :: "real \<Rightarrow> real \<Rightarrow> real \<Rightarrow> FuelCellParameters" where
  "FuelCellParameters_init T_kelvin P_H2_atm P_O2_atm =
     \<lparr>R = 8.314, F = 96485,
      T = T_kelvin, P_H2 = P_H2_atm, P_O2 = P_O2_atm,
      alpha = 0.5, area_resistance = 0.2, i_limit = 1.8\<rparr>"

text \<open>
  A call \<open>FuelCellParameters(*args, **kwargs)\<close>: Python binds the positional and the
  keyword arguments to the signature
  \<open>(T_kelvin=353, P_H2_atm=1.0, P_O2_atm=1.0)\<close> and raises TypeError for a surplus
  positional argument, a keyword the signature does not have, and a parameter given twice.
\<close>

definition init_names :: "string list" where
  "init_names = [''T_kelvin'', ''P_H2_atm'', ''P_O2_atm'']"

definition init_defaults :: "real list" where
  "init_defaults = [353, 1.0, 1.0]"

definition bound_arg :: "real list \<Rightarrow> (string \<times> real) list \<Rightarrow> nat \<Rightarrow> real" where
  "bound_arg args kwargs n =
     (if n < length args then args ! n
      else (case map_of kwargs (init_names ! n) of
              Some v \<Rightarrow> v
            | None \<Rightarrow> init_defaults ! n))"

definition FuelCellParameters_call ::
  "real list \<Rightarrow> (string \<times> real) list \<Rightarrow> py_error + FuelCellParameters" where
  "FuelCellParameters_call args kwargs =
     (if length init_names < length args then Inl TypeError
      else if \<exists>k \<in> set (map fst kwargs). k \<notin> set init_names then Inl TypeError
      else if \<not> distinct (map fst kwargs) then Inl TypeError
      else if \<exists>k \<in> set (map fst kwargs). k \<in> set (take (length args) init_names)
        then Inl TypeError
      else Inr (FuelCellParameters_init (bound_arg args kwargs 0) (bound_arg args kwargs 1)
                  (bound_arg args kwargs 2)))"

section \<open>Physics equations\<close>

definition calc_nernst_voltage :: "FuelCellParameters \<Rightarrow> py_error + npval" where
  "calc_nernst_voltage params =
     (let E0 = 1.229;
          E_standard_T = E0 - 0.00085 * (T params - 298.15)
      in case py_div (R params * T params) (2 * F params) of
           Inl e \<Rightarrow> Inl e
         | Inr c \<Rightarrow>
             (let term_pressure =
                    np_mul (Fin c)
                      (np_log (np_mul (Fin (P_H2 params)) (py_pow_half (P_O2 params))))
              in Inr (np_add (Fin E_standard_T) term_pressure)))"

text \<open>
  The fields of a parameter set are Python numbers, as the constructor's callers pass them;
  arithmetic on them alone is Python's, and any operation with a numpy value is numpy's.
  The calculators take a scalar or a numpy array for \<open>i\<close>. The part that numpy
  evaluates element by element is one function of the sample; the scalar call applies it
  once and the array call maps it, after the Python float arithmetic on the parameters
  (which is where a ZeroDivisionError can come from).
\<close>

definition v_act_elem :: "real \<Rightarrow> real \<Rightarrow> npval" where
  "v_act_elem term_tafel i =
     (let i0 = 0.001;
          v_act = np_mul (Fin term_tafel) (np_log (Fin ((i + 0.000001) / i0)))
      in np_maximum (Fin 0) v_act)"

definition calc_activation_loss :: "real \<Rightarrow> FuelCellParameters \<Rightarrow> py_error + npval" where
  "calc_activation_loss i params =
     (case py_div (R params * T params) (2 * alpha params * F params) of
        Inl e \<Rightarrow> Inl e
      | Inr term_tafel \<Rightarrow> Inr (v_act_elem term_tafel i))"

definition calc_activation_loss_array ::
  "real list \<Rightarrow> FuelCellParameters \<Rightarrow> py_error + npval list" where
  "calc_activation_loss_array i params =
     (case py_div (R params * T params) (2 * alpha params * F params) of
        Inl e \<Rightarrow> Inl e
      | Inr term_tafel \<Rightarrow> Inr (map (v_act_elem term_tafel) i))"

definition calc_ohmic_loss :: "real \<Rightarrow> FuelCellParameters \<Rightarrow> npval" where
  "calc_ohmic_loss i params = Fin (i * area_resistance params)"

definition calc_ohmic_loss_array :: "real list \<Rightarrow> FuelCellParameters \<Rightarrow> npval list" where
  "calc_ohmic_loss_array i params = map (\<lambda>x. Fin (x * area_resistance params)) i"

text \<open>
  In exact arithmetic the clamp point \<open>i_limit - 1e-4\<close> is always below \<open>i_limit\<close>.
  In float64 the subtraction can round back to \<open>i_limit\<close>; that evaluation is
  \<open>calc_concentration_loss_f64\<close> below.
\<close>

definition i_safe_elem :: "FuelCellParameters \<Rightarrow> real \<Rightarrow> real" where
  "i_safe_elem params i = min i (i_limit params - 0.0001)"

definition v_conc_elem :: "FuelCellParameters \<Rightarrow> real \<Rightarrow> real \<Rightarrow> npval" where
  "v_conc_elem params term_conc i_safe =
     np_mul (Fin (- term_conc))
       (np_log (np_sub (Fin 1) (np_divide i_safe (i_limit params))))"

definition calc_concentration_loss :: "real \<Rightarrow> FuelCellParameters \<Rightarrow> py_error + npval" where
  "calc_concentration_loss i params =
     (let i_safe = i_safe_elem params i
      in case py_div (R params * T params) (2 * F params) of
           Inl e \<Rightarrow> Inl e
         | Inr term_conc \<Rightarrow> Inr (v_conc_elem params term_conc i_safe))"

definition calc_concentration_loss_array ::
  "real list \<Rightarrow> FuelCellParameters \<Rightarrow> py_error + npval list" where
  "calc_concentration_loss_array i params =
     (let i_safe = map (i_safe_elem params) i
      in case py_div (R params * T params) (2 * F params) of
           Inl e \<Rightarrow> Inl e
         | Inr term_conc \<Rightarrow> Inr (map (v_conc_elem params term_conc) i_safe))"

text \<open>
  \<open>calc_concentration_loss\<close> once more, as float64 evaluates it for a scalar \<open>i\<close>:
  the same operations in the same order, each result rounded. The fields, the argument and
  the literal \<open>1e-4\<close> are rounded where they are read (a double is its own rounding),
  and \<open>np.log\<close> is taken as correctly rounded.
\<close>

definition calc_concentration_loss_f64 ::
  "real \<Rightarrow> FuelCellParameters \<Rightarrow> py_error + npval" where
  "calc_concentration_loss_f64 i params =
     (let i_safe = np_minimum (f64_round i)
                     (f64_norm (np_sub (f64_round (i_limit params)) (f64_round 0.0001)))
      in case py_div_f64 (f64_norm (np_mul (f64_round (R params)) (f64_round (T params))))
                (f64_norm (np_mul (Fin 2) (f64_round (F params)))) of
           Inl e \<Rightarrow> Inl e
         | Inr term_conc \<Rightarrow>
             Inr (f64_norm (np_mul (np_neg term_conc)
                    (f64_norm (np_log (f64_norm (np_sub (Fin 1)
                       (f64_norm (np_true_divide i_safe (f64_round (i_limit params)))))))))))"

section \<open>Main simulation\<close>

text \<open>
  The first statement of \<open>simulate_fuel_cell\<close>, the array of current densities, has a
  name of its own; the simulation then evaluates the Nernst voltage once and the three
  losses on the whole array, and the first error raised ends it.
\<close>

definition sweep_current_density :: "FuelCellParameters \<Rightarrow> real list" where
  "sweep_current_density params = np_linspace 0.001 (i_limit params - 0.05) 100"

definition simulate_fuel_cell ::
  "FuelCellParameters \<Rightarrow>
     py_error + (real list \<times> npval list \<times> npval list \<times> npval list list)" where
  "simulate_fuel_cell params =
     (let current_density = sweep_current_density params
      in case calc_nernst_voltage params of
           Inl e \<Rightarrow> Inl e
         | Inr E_nernst \<Rightarrow>
        (case calc_activation_loss_array current_density params of
           Inl e \<Rightarrow> Inl e
         | Inr v_act \<Rightarrow>
        (let v_ohmic = calc_ohmic_loss_array current_density params
         in case calc_concentration_loss_array current_density params of
              Inl e \<Rightarrow> Inl e
            | Inr v_conc \<Rightarrow>
           (let v_cell =
                  map2 (\<lambda>a c. np_sub a c)
                    (map2 (\<lambda>a b. np_sub a b) (map (np_sub E_nernst) v_act) v_ohmic) v_conc;
                p_cell = map2 (\<lambda>v x. np_mul v (Fin x)) v_cell current_density
            in Inr (current_density, v_cell, p_cell, [v_act, v_ohmic, v_conc])))))"

section \<open>Reading results\<close>

text \<open>
  The parameter sets whose two universal constants have the values the constructor gives
  them.
\<close>

definition std_constants :: "FuelCellParameters \<Rightarrow> bool" where
  "std_constants params \<longleftrightarrow> R params = 8.314 \<and> F params = 96485"

text \<open>Both results are finite numbers, the first below the second.\<close>

fun fin_less :: "py_error + npval \<Rightarrow> py_error + npval \<Rightarrow> bool" where
  "fin_less (Inr (Fin a)) (Inr (Fin b)) = (a < b)"
| "fin_less _ _ = False"

section \<open>The constructor\<close>

lemma init_constants: "std_constants (FuelCellParameters_init t h o2)"
  by (simp add: std_constants_def FuelCellParameters_init_def)

lemma call_ok_fields:
  assumes "FuelCellParameters_call args kwargs = Inr p"
  shows "alpha p = 0.5 \<and> area_resistance p = 0.2 \<and> i_limit p = 1.8 \<and> std_constants p"
  using assms
  by (auto simp: FuelCellParameters_call_def FuelCellParameters_init_def std_constants_def
      split: if_splits)

text \<open>
  Claim C9, as the code has it: the constructor's signature has the temperature and the two
  partial pressures only. Every parameter set it returns has \<open>alpha = 0.5\<close>,
  \<open>area_resistance = 0.2\<close> and \<open>i_limit = 1.8\<close>; a fourth positional argument or a
  keyword other than \<open>T_kelvin\<close>, \<open>P_H2_atm\<close>, \<open>P_O2_atm\<close> is a TypeError; and a
  call with at most three positional arguments and no keyword succeeds, the omitted ones
  taking their defaults.
\<close>

theorem constructor_fixed_cell_parameters:
  "(FuelCellParameters_call args kwargs = Inr p \<longrightarrow>
      alpha p = 0.5 \<and> area_resistance p = 0.2 \<and> i_limit p = 1.8)
   \<and> (3 < length args
        \<or> (\<exists>k \<in> fst ` set kwargs. k \<notin> {''T_kelvin'', ''P_H2_atm'', ''P_O2_atm''})
        \<longrightarrow> FuelCellParameters_call args kwargs = Inl TypeError)
   \<and> (length args \<le> 3 \<longrightarrow>
        FuelCellParameters_call args [] =
          Inr (FuelCellParameters_init (bound_arg args [] 0) (bound_arg args [] 1)
                 (bound_arg args [] 2)))"
proof (intro conjI impI)
  assume "FuelCellParameters_call args kwargs = Inr p"
  from call_ok_fields [OF this]
  show "alpha p = 0.5" and "area_resistance p = 0.2" and "i_limit p = 1.8"
    by simp_all
next
  assume "3 < length args
    \<or> (\<exists>k \<in> fst ` set kwargs. k \<notin> {''T_kelvin'', ''P_H2_atm'', ''P_O2_atm''})"
  then show "FuelCellParameters_call args kwargs = Inl TypeError"
    by (auto simp: FuelCellParameters_call_def init_names_def)
next
  assume "length args \<le> 3"
  then show "FuelCellParameters_call args [] =
          Inr (FuelCellParameters_init (bound_arg args [] 0) (bound_arg args [] 1)
                 (bound_arg args [] 2))"
    by (simp add: FuelCellParameters_call_def init_names_def)
qed

text \<open>
  The theorem at the repository's own call, \<open>FuelCellParameters(353, 3.0, 3.0)\<close>, and
  at the call with no argument.
\<close>

theorem constructor_fixed_cell_parameters_witness:
  "FuelCellParameters_call [353, 3, 3] [] = Inr (FuelCellParameters_init 353 3 3)
   \<and> alpha (FuelCellParameters_init 353 3 3) = 0.5
   \<and> area_resistance (FuelCellParameters_init 353 3 3) = 0.2
   \<and> i_limit (FuelCellParameters_init 353 3 3) = 1.8
   \<and> FuelCellParameters_call [] [] = Inr (FuelCellParameters_init 353 1 1)"
  using constructor_fixed_cell_parameters
      [of "[353, 3, 3]" "[]" "FuelCellParameters_init 353 3 3"]
    constructor_fixed_cell_parameters [of "[]" "[]" "FuelCellParameters_init 353 1 1"]
  by (simp add: bound_arg_def init_defaults_def init_names_def)

text \<open>
  Claim C9 as stated fails: the three cell parameters are not arguments of the
  constructor, neither by keyword nor as a fourth positional argument.
\<close>

theorem constructor_rejects_cell_parameters:
  "FuelCellParameters_call [] [(''alpha'', 0.7)] = Inl TypeError
   \<and> FuelCellParameters_call [] [(''area_resistance'', 0.1)] = Inl TypeError
   \<and> FuelCellParameters_call [] [(''i_limit'', 2)] = Inl TypeError
   \<and> FuelCellParameters_call [353, 3, 3, 0.7] [] = Inl TypeError"
  by (simp add: FuelCellParameters_call_def init_names_def)

section \<open>The losses do not read the partial pressures\<close>

lemma v_conc_elem_pressures:
  "v_conc_elem (params\<lparr>P_H2 := h, P_O2 := o2\<rparr>) = v_conc_elem params"
  by (simp add: fun_eq_iff v_conc_elem_def)

lemma i_safe_elem_pressures:
  "i_safe_elem (params\<lparr>P_H2 := h, P_O2 := o2\<rparr>) = i_safe_elem params"
  by (simp add: fun_eq_iff i_safe_elem_def)

text \<open>
  Claim C10: two parameter sets that differ in \<open>P_H2\<close> and \<open>P_O2\<close> only give the same
  activation, ohmic and concentration loss at every current density, for a scalar and for
  an array of current densities, errors included.
\<close>

theorem losses_ignore_pressures:
  "calc_activation_loss i (params\<lparr>P_H2 := h, P_O2 := o2\<rparr>) = calc_activation_loss i params
   \<and> calc_ohmic_loss i (params\<lparr>P_H2 := h, P_O2 := o2\<rparr>) = calc_ohmic_loss i params
   \<and> calc_concentration_loss i (params\<lparr>P_H2 := h, P_O2 := o2\<rparr>)
       = calc_concentration_loss i params
   \<and> calc_activation_loss_array xs (params\<lparr>P_H2 := h, P_O2 := o2\<rparr>)
       = calc_activation_loss_array xs params
   \<and> calc_ohmic_loss_array xs (params\<lparr>P_H2 := h, P_O2 := o2\<rparr>)
       = calc_ohmic_loss_array xs params
   \<and> calc_concentration_loss_array xs (params\<lparr>P_H2 := h, P_O2 := o2\<rparr>)
       = calc_concentration_loss_array xs params"
  by (simp add: calc_activation_loss_def calc_ohmic_loss_def calc_concentration_loss_def
      calc_activation_loss_array_def calc_ohmic_loss_array_def
      calc_concentration_loss_array_def i_safe_elem_pressures v_conc_elem_pressures
      split: sum.splits)

section \<open>The sweep\<close>

lemma length_np_linspace: "length (np_linspace start stop num) = num"
  by (simp add: np_linspace_def Let_def)

lemma nth_np_linspace:
  assumes "k < num" and "1 < num"
  shows "np_linspace start stop num ! k = start + real k * ((stop - start) / real (num - 1))"
proof (cases "k = num - 1")
  case True
  have "real (num - 1) \<noteq> 0" using assms by simp
  then have "start + real (num - 1) * ((stop - start) / real (num - 1)) = stop"
    by simp
  with True assms show ?thesis
    by (simp add: np_linspace_def Let_def)
next
  case False
  with assms show ?thesis
    by (simp add: np_linspace_def Let_def add.commute)
qed

lemma length_sweep: "length (sweep_current_density params) = 100"
  by (simp add: sweep_current_density_def length_np_linspace)

lemma nth_sweep:
  assumes "k < 100"
  shows "sweep_current_density params ! k
           = 0.001 + real k * ((i_limit params - 0.05 - 0.001) / 99)"
  using assms nth_np_linspace [of k 100 "0.001" "i_limit params - 0.05"]
  by (simp add: sweep_current_density_def)

lemma activation_array_nth:
  assumes "calc_activation_loss_array xs params = Inr ys"
  shows "length ys = length xs"
    and "k < length xs \<Longrightarrow> calc_activation_loss (xs ! k) params = Inr (ys ! k)"
  using assms
  by (auto simp: calc_activation_loss_array_def calc_activation_loss_def split: sum.splits)

lemma concentration_array_nth:
  assumes "calc_concentration_loss_array xs params = Inr ys"
  shows "length ys = length xs"
    and "k < length xs \<Longrightarrow> calc_concentration_loss (xs ! k) params = Inr (ys ! k)"
  using assms
  by (auto simp: calc_concentration_loss_array_def calc_concentration_loss_def Let_def
      split: sum.splits)

lemma ohmic_array_nth:
  shows "length (calc_ohmic_loss_array xs params) = length xs"
    and "k < length xs \<Longrightarrow>
           calc_ohmic_loss_array xs params ! k = calc_ohmic_loss (xs ! k) params"
  by (simp_all add: calc_ohmic_loss_array_def calc_ohmic_loss_def)

lemma simulate_Inr:
  assumes "simulate_fuel_cell params = Inr (cd, v_cell, p_cell, ls)"
  shows "\<exists>E_nernst v_act v_ohmic v_conc.
      cd = sweep_current_density params
      \<and> calc_nernst_voltage params = Inr E_nernst
      \<and> calc_activation_loss_array cd params = Inr v_act
      \<and> v_ohmic = calc_ohmic_loss_array cd params
      \<and> calc_concentration_loss_array cd params = Inr v_conc
      \<and> v_cell = map2 (\<lambda>a c. np_sub a c)
                    (map2 (\<lambda>a b. np_sub a b) (map (np_sub E_nernst) v_act) v_ohmic) v_conc
      \<and> p_cell = map2 (\<lambda>v x. np_mul v (Fin x)) v_cell cd
      \<and> ls = [v_act, v_ohmic, v_conc]"
  using assms
  by (auto simp: simulate_fuel_cell_def Let_def split: sum.splits)

lemma simulate_Inr_cd:
  assumes "simulate_fuel_cell params = Inr r"
  shows "fst r = sweep_current_density params"
  using assms
  by (auto simp: simulate_fuel_cell_def Let_def split: sum.splits)

lemma simulate_total:
  assumes "alpha params \<noteq> 0" and "F params \<noteq> 0"
  shows "\<exists>r. simulate_fuel_cell params = Inr r"
  using assms
  by (simp add: simulate_fuel_cell_def Let_def calc_nernst_voltage_def
      calc_activation_loss_array_def calc_concentration_loss_array_def py_div_def)

lemma sweep_between:
  assumes "k < 100"
  shows "min 0.001 (i_limit params - 0.05) \<le> sweep_current_density params ! k"
    and "sweep_current_density params ! k \<le> max 0.001 (i_limit params - 0.05)"
proof -
  define d where "d = (i_limit params - 0.05 - 0.001) / 99"
  have s: "sweep_current_density params ! k = 0.001 + real k * d"
    using assms by (simp add: nth_sweep d_def)
  have e: "i_limit params - 0.05 = 0.001 + 99 * d"
    by (simp add: d_def field_simps)
  from assms have k: "0 \<le> real k" "real k \<le> 99" by simp_all
  show "min 0.001 (i_limit params - 0.05) \<le> sweep_current_density params ! k"
  proof (cases "0 \<le> d")
    case True
    with k have "0 \<le> real k * d" by simp
    then show ?thesis unfolding s by simp
  next
    case False
    then have "d \<le> 0" by simp
    with k(2) have "99 * d \<le> real k * d" by (rule mult_right_mono_neg)
    then show ?thesis unfolding s e by simp
  qed
  show "sweep_current_density params ! k \<le> max 0.001 (i_limit params - 0.05)"
  proof (cases "0 \<le> d")
    case True
    with k(2) have "real k * d \<le> 99 * d" by (rule mult_right_mono)
    then show ?thesis unfolding s e by simp
  next
    case False
    then have "d \<le> 0" by simp
    with k(1) have "real k * d \<le> 0" by (rule mult_nonneg_nonpos)
    then show ?thesis unfolding s by simp
  qed
qed

text \<open>
  Claim C4, as the code has it, in exact arithmetic: the sweep always has 100 samples, the
  \<open>k\<close>-th being \<open>0.001 + k * (i_limit - 0.05 - 0.001) / 99\<close>, from \<open>0.001\<close> to
  \<open>i_limit - 0.05\<close>, and they are what the simulation returns as its current densities.
  Every sample lies strictly between \<open>0\<close> and \<open>i_limit\<close> exactly when
  \<open>i_limit > 0.05\<close>, and the samples are strictly increasing exactly when
  \<open>i_limit > 0.051\<close>.
\<close>

theorem sweep_samples:
  "length (sweep_current_density params) = 100
   \<and> (simulate_fuel_cell params = Inr r \<longrightarrow> fst r = sweep_current_density params)
   \<and> (\<forall>k<100. sweep_current_density params ! k
                = 0.001 + real k * ((i_limit params - 0.05 - 0.001) / 99))
   \<and> sweep_current_density params ! 0 = 0.001
   \<and> sweep_current_density params ! 99 = i_limit params - 0.05
   \<and> (0.05 < i_limit params \<longleftrightarrow>
        (\<forall>k<100. 0 < sweep_current_density params ! k
                    \<and> sweep_current_density params ! k < i_limit params))
   \<and> (0.051 < i_limit params \<longleftrightarrow>
        (\<forall>j k. j < k \<and> k < 100 \<longrightarrow>
            sweep_current_density params ! j < sweep_current_density params ! k))"
proof (intro conjI impI allI iffI)
  show "length (sweep_current_density params) = 100" by (rule length_sweep)
  show "fst r = sweep_current_density params" if "simulate_fuel_cell params = Inr r"
    using that by (rule simulate_Inr_cd)
  show "sweep_current_density params ! k
          = 0.001 + real k * ((i_limit params - 0.05 - 0.001) / 99)" if "k < 100" for k
    using that by (rule nth_sweep)
  show "sweep_current_density params ! 0 = 0.001"
    by (simp add: nth_sweep)
  show l: "sweep_current_density params ! 99 = i_limit params - 0.05"
    by (simp add: nth_sweep field_simps)
  show "0 < sweep_current_density params ! k" if "0.05 < i_limit params" and "k < 100" for k
    using sweep_between(1) [OF that(2), of params] that(1) by simp
  show "sweep_current_density params ! k < i_limit params"
    if "0.05 < i_limit params" and "k < 100" for k
    using sweep_between(2) [OF that(2), of params] that(1) by simp
  show "0.05 < i_limit params"
    if "\<forall>k<100. 0 < sweep_current_density params ! k
                    \<and> sweep_current_density params ! k < i_limit params"
  proof -
    from that have "0 < sweep_current_density params ! 99" by simp
    then show ?thesis unfolding l by simp
  qed
  show "0.051 < i_limit params"
    if "\<forall>j k. j < k \<and> k < 100 \<longrightarrow>
            sweep_current_density params ! j < sweep_current_density params ! k"
  proof -
    from that have "sweep_current_density params ! 0 < sweep_current_density params ! 99"
      by simp
    then show ?thesis unfolding l by (simp add: nth_sweep)
  qed
next
  fix j k :: nat
  assume big: "0.051 < i_limit params" and jk: "j < k \<and> k < 100"
  from big have d: "0 < (i_limit params - 0.05 - 0.001) / 99" by simp
  from jk have "real j < real k" by simp
  from this d have "real j * ((i_limit params - 0.05 - 0.001) / 99)
      < real k * ((i_limit params - 0.05 - 0.001) / 99)"
    by (rule mult_strict_right_mono)
  with jk show "sweep_current_density params ! j < sweep_current_density params ! k"
    by (simp add: nth_sweep)
qed

text \<open>
  The theorem at the repository's parameter set, where \<open>i_limit = 1.8\<close>, and at
  \<open>i_limit = 0.0505\<close>, between the two thresholds, where the samples are still inside
  the interval.
\<close>

theorem sweep_samples_witness:
  "length (sweep_current_density (FuelCellParameters_init 353 3 3)) = 100
   \<and> sweep_current_density (FuelCellParameters_init 353 3 3) ! 0 = 0.001
   \<and> sweep_current_density (FuelCellParameters_init 353 3 3) ! 99 = 1.75
   \<and> sweep_current_density (FuelCellParameters_init 353 3 3) ! 0
       < sweep_current_density (FuelCellParameters_init 353 3 3) ! 1
   \<and> 0 < sweep_current_density (FuelCellParameters_init 353 3 3) ! 99
   \<and> sweep_current_density (FuelCellParameters_init 353 3 3) ! 99
       < i_limit (FuelCellParameters_init 353 3 3)
   \<and> (\<exists>r. simulate_fuel_cell (FuelCellParameters_init 353 3 3) = Inr r
          \<and> fst r = sweep_current_density (FuelCellParameters_init 353 3 3))
   \<and> 0 < sweep_current_density ((FuelCellParameters_init 353 3 3)\<lparr>i_limit := 0.0505\<rparr>) ! 99
   \<and> sweep_current_density ((FuelCellParameters_init 353 3 3)\<lparr>i_limit := 0.0505\<rparr>) ! 0
       < i_limit ((FuelCellParameters_init 353 3 3)\<lparr>i_limit := 0.0505\<rparr>)"
proof -
  let ?p = "FuelCellParameters_init 353 3 3"
  let ?q = "?p\<lparr>i_limit := 0.0505\<rparr>"
  have f: "i_limit ?p = 1.8" by (simp add: FuelCellParameters_init_def)
  have big: "0.051 < i_limit ?p" and mid: "0.05 < i_limit ?p" by (simp_all add: f)
  have midq: "0.05 < i_limit ?q" by simp
  have "alpha ?p \<noteq> 0" and "F ?p \<noteq> 0" by (simp_all add: FuelCellParameters_init_def)
  then obtain r where r: "simulate_fuel_cell ?p = Inr r"
    using simulate_total by blast
  note s = sweep_samples [of ?p r]
  note l = s [THEN conjunct1]
  note fr = s [THEN conjunct2, THEN conjunct1, THEN mp, OF r]
  note z = s [THEN conjunct2, THEN conjunct2, THEN conjunct2, THEN conjunct1]
  note n0 = s [THEN conjunct2, THEN conjunct2, THEN conjunct2, THEN conjunct2, THEN conjunct1]
  note ins = s [THEN conjunct2, THEN conjunct2, THEN conjunct2, THEN conjunct2,
      THEN conjunct2, THEN conjunct1, THEN iffD1, OF mid]
  note mono = s [THEN conjunct2, THEN conjunct2, THEN conjunct2, THEN conjunct2,
      THEN conjunct2, THEN conjunct2, THEN iffD1, OF big]
  note insq = sweep_samples [of ?q r, THEN conjunct2, THEN conjunct2, THEN conjunct2,
      THEN conjunct2, THEN conjunct2, THEN conjunct1, THEN iffD1, OF midq]
  from n0 have n: "sweep_current_density ?p ! 99 = 1.75" by (simp add: f)
  from mono have m: "sweep_current_density ?p ! 0 < sweep_current_density ?p ! 1" by simp
  from ins have i1: "0 < sweep_current_density ?p ! 99"
    and i2: "sweep_current_density ?p ! 99 < i_limit ?p" by simp_all
  from insq have q1: "0 < sweep_current_density ?q ! 99"
    and q2: "sweep_current_density ?q ! 0 < i_limit ?q" by simp_all
  from r fr have e: "\<exists>r. simulate_fuel_cell ?p = Inr r \<and> fst r = sweep_current_density ?p"
    by blast
  show ?thesis by (intro conjI l z n m i1 i2 e q1 q2)
qed

text \<open>
  Claim C4 as stated fails for a small positive limit: with \<open>i_limit = 0.03\<close> the last
  sample is \<open>-0.02\<close>, outside \<open>(0, i_limit)\<close>, and the samples decrease.
\<close>

theorem sweep_small_limit_leaves_interval:
  "0 < i_limit ((FuelCellParameters_init 353 3 3)\<lparr>i_limit := 0.03\<rparr>)
   \<and> sweep_current_density ((FuelCellParameters_init 353 3 3)\<lparr>i_limit := 0.03\<rparr>) ! 99 < 0
   \<and> sweep_current_density ((FuelCellParameters_init 353 3 3)\<lparr>i_limit := 0.03\<rparr>) ! 1
       < sweep_current_density ((FuelCellParameters_init 353 3 3)\<lparr>i_limit := 0.03\<rparr>) ! 0"
  by (simp add: nth_sweep)

section \<open>Nernst voltage\<close>

lemma nernst_value:
  assumes "F params \<noteq> 0" and "0 < P_H2 params" and "0 < P_O2 params"
  shows "calc_nernst_voltage params =
    Inr (Fin (1.229 - 0.00085 * (T params - 298.15)
              + (R params * T params / (2 * F params))
                  * ln (P_H2 params * sqrt (P_O2 params))))"
proof -
  from assms(3) have "0 < sqrt (P_O2 params)" by simp
  with assms(2) have pos: "0 < P_H2 params * sqrt (P_O2 params)" by simp
  from assms(3) have pw: "py_pow_half (P_O2 params) = Fin (sqrt (P_O2 params))"
    by (simp add: py_pow_half_def)
  from assms(1) have dv: "py_div (R params * T params) (2 * F params)
      = Inr (R params * T params / (2 * F params))"
    by (simp add: py_div_def)
  show ?thesis
    unfolding calc_nernst_voltage_def Let_def dv pw using pos by simp
qed

text \<open>
  Claim C2: with both partial pressures positive and the constructor's constants
  \<open>R = 8.314\<close>, \<open>F = 96485\<close>, the Nernst voltage is the finite number
  \<open>1.229 - 0.85e-3 * (T - 298.15) + (R * T / (2 * F)) * ln (P_H2 * sqrt P_O2)\<close>.
\<close>

theorem nernst_formula:
  assumes "0 < P_H2 params" and "0 < P_O2 params" and "std_constants params"
  shows "calc_nernst_voltage params =
    Inr (Fin (1.229 - 0.00085 * (T params - 298.15)
              + (8.314 * T params / (2 * 96485)) * ln (P_H2 params * sqrt (P_O2 params))))"
proof -
  from assms(3) have c: "R params = 8.314" "F params = 96485"
    by (simp_all add: std_constants_def)
  then have "F params \<noteq> 0" by simp
  from nernst_value [OF this assms(1,2)] show ?thesis
    unfolding c .
qed

text \<open>The theorem at the repository's parameter set \<open>FuelCellParameters(353, 3.0, 3.0)\<close>.\<close>

theorem nernst_formula_witness:
  "0 < P_H2 (FuelCellParameters_init 353 3 3) \<and> 0 < P_O2 (FuelCellParameters_init 353 3 3)
   \<and> std_constants (FuelCellParameters_init 353 3 3)
   \<and> calc_nernst_voltage (FuelCellParameters_init 353 3 3) =
      Inr (Fin (1.229 - 0.00085 * (353 - 298.15)
              + (8.314 * 353 / (2 * 96485)) * ln (3 * sqrt 3)))"
proof -
  let ?p = "FuelCellParameters_init 353 3 3"
  have h: "0 < P_H2 ?p" "0 < P_O2 ?p" "std_constants ?p"
    by (simp_all add: FuelCellParameters_init_def std_constants_def)
  have f: "T ?p = 353" "P_H2 ?p = 3" "P_O2 ?p = 3"
    by (simp_all add: FuelCellParameters_init_def)
  note v = nernst_formula [OF h, unfolded f]
  show ?thesis by (intro conjI h v)
qed

lemma fin_less_irrefl: "\<not> fin_less a a"
proof (cases a)
  case (Inl e)
  then show ?thesis by simp
next
  case (Inr v)
  then show ?thesis by (cases v) simp_all
qed

lemma fin_less_asym:
  assumes "fin_less a b"
  shows "\<not> fin_less b a"
  using assms by (cases "(a, b)" rule: fin_less.cases) auto

lemma nernst_at_temperature:
  assumes "std_constants params" and "0 < P_H2 params" and "0 < P_O2 params"
  shows "calc_nernst_voltage (params\<lparr>T := t\<rparr>) =
    Inr (Fin (1.229 - 0.00085 * (t - 298.15)
              + (8.314 * t / (2 * 96485)) * ln (P_H2 params * sqrt (P_O2 params))))"
  using nernst_value [of "params\<lparr>T := t\<rparr>"] assms
  by (simp add: std_constants_def)

text \<open>
  Claim C7, as the code has it: with positive partial pressures, raising the temperature
  lowers the Nernst voltage strictly provided the pressure term's slope stays below the
  linear correction, \<open>(R / (2 * F)) * ln (P_H2 * sqrt P_O2) < 0.85e-3\<close>.
\<close>

theorem nernst_decreases_with_temperature:
  assumes "std_constants params" and "0 < P_H2 params" and "0 < P_O2 params"
    and "(8.314 / (2 * 96485)) * ln (P_H2 params * sqrt (P_O2 params)) < 0.00085"
    and "T1 < T2"
  shows "fin_less (calc_nernst_voltage (params\<lparr>T := T2\<rparr>))
           (calc_nernst_voltage (params\<lparr>T := T1\<rparr>))"
proof -
  define s where "s = (8.314 / (2 * 96485)) * ln (P_H2 params * sqrt (P_O2 params)) - 0.00085"
  have s: "s < 0" using assms(4) by (simp add: s_def)
  have v: "1.229 - 0.00085 * (t - 298.15)
              + (8.314 * t / (2 * 96485)) * ln (P_H2 params * sqrt (P_O2 params))
           = 1.229 + 0.00085 * 298.15 + t * s" for t :: real
    by (simp add: s_def field_simps)
  from assms(5) s have "T2 * s < T1 * s"
    by (rule mult_strict_right_mono_neg)
  then show ?thesis
    unfolding nernst_at_temperature [OF assms(1-3)] v by simp
qed

text \<open>The theorem at atmospheric pressures, between 300 K and 353 K.\<close>

theorem nernst_decreases_with_temperature_witness:
  "std_constants (FuelCellParameters_init 353 1 1)
   \<and> 0 < P_H2 (FuelCellParameters_init 353 1 1)
   \<and> 0 < P_O2 (FuelCellParameters_init 353 1 1)
   \<and> (8.314 / (2 * 96485)) * ln (P_H2 (FuelCellParameters_init 353 1 1)
          * sqrt (P_O2 (FuelCellParameters_init 353 1 1))) < (0.00085::real)
   \<and> (300::real) < 353
   \<and> fin_less (calc_nernst_voltage ((FuelCellParameters_init 353 1 1)\<lparr>T := 353\<rparr>))
        (calc_nernst_voltage ((FuelCellParameters_init 353 1 1)\<lparr>T := 300\<rparr>))"
proof -
  let ?p = "FuelCellParameters_init 353 1 1"
  have h: "std_constants ?p" "0 < P_H2 ?p" "0 < P_O2 ?p"
    "(8.314 / (2 * 96485)) * ln (P_H2 ?p * sqrt (P_O2 ?p)) < (0.00085::real)"
    "(300::real) < 353"
    by (simp_all add: FuelCellParameters_init_def std_constants_def)
  show ?thesis
    by (intro conjI h nernst_decreases_with_temperature [OF h])
qed

lemma ln_3_pow_20: "20 \<le> ln (3486784401 * sqrt 1 :: real)"
proof -
  have "ln (3486784401 * sqrt 1 :: real) = 20 * ln 3"
    using ln_realpow [of "3::real" 20] by simp
  moreover have "(1::real) \<le> ln 3"
    using exp_le by (simp add: ln_ge_iff)
  ultimately show ?thesis by simp
qed

text \<open>
  Claim C7 as stated fails at a high hydrogen pressure: with \<open>P_H2 = 3 ^ 20\<close> atm and
  \<open>P_O2 = 1\<close> atm the voltage at 400 K is above the voltage at 300 K.
\<close>

theorem nernst_rises_at_high_pressure:
  "fin_less (calc_nernst_voltage (FuelCellParameters_init 300 3486784401 1))
     (calc_nernst_voltage (FuelCellParameters_init 400 3486784401 1))
   \<and> \<not> fin_less (calc_nernst_voltage (FuelCellParameters_init 400 3486784401 1))
         (calc_nernst_voltage (FuelCellParameters_init 300 3486784401 1))"
proof -
  have v: "calc_nernst_voltage (FuelCellParameters_init t 3486784401 1)
      = Inr (Fin (1.229 - 0.00085 * (t - 298.15)
              + (8.314 * t / (2 * 96485)) * ln (3486784401 * sqrt 1)))" for t
    using nernst_value [of "FuelCellParameters_init t 3486784401 1"]
    by (simp add: FuelCellParameters_init_def)
  define L :: real where "L = ln (3486784401 * sqrt 1)"
  have L: "20 \<le> L" unfolding L_def by (rule ln_3_pow_20)
  have "1.229 - 0.00085 * (300 - 298.15) + (8.314 * 300 / (2 * 96485)) * L
      < 1.229 - 0.00085 * (400 - 298.15) + (8.314 * 400 / (2 * 96485)) * L"
    using L by simp
  then have up: "fin_less (calc_nernst_voltage (FuelCellParameters_init 300 3486784401 1))
     (calc_nernst_voltage (FuelCellParameters_init 400 3486784401 1))"
    unfolding v L_def by simp
  from up fin_less_asym [OF up] show ?thesis by (rule conjI)
qed

lemma add_inf_signed: "np_add (Fin e) (inf_signed s) = inf_signed s"
  by (simp add: inf_signed_def)

text \<open>
  Claim C8, as the code has it: a zero or negative partial pressure raises nothing. The
  call returns a value that is not a finite number: a complex value when \<open>P_O2 < 0\<close>
  (Python's power operator), otherwise an infinity of the sign of \<open>- T\<close> (that is
  \<open>-inf\<close> for \<open>T > 0\<close>, and \<open>nan\<close> for \<open>T = 0\<close>) when \<open>P_H2 = 0\<close> or
  \<open>P_O2 = 0\<close>, and \<open>nan\<close> when \<open>P_H2 < 0 < P_O2\<close>.
\<close>

theorem nernst_nonpositive_pressure:
  assumes "std_constants params" and "P_H2 params \<le> 0 \<or> P_O2 params \<le> 0"
  shows "calc_nernst_voltage params =
    Inr (if P_O2 params < 0 then Cplx
         else if P_H2 params = 0 \<or> P_O2 params = 0 then inf_signed (- T params)
         else NaN)"
proof -
  from assms(1) have dv: "py_div (R params * T params) (2 * F params)
      = Inr (8.314 * T params / (2 * 96485))"
    by (simp add: py_div_def std_constants_def)
  have sg: "inf_signed (- (8.314 * T params / (2 * 96485))) = inf_signed (- T params)"
    by (simp add: inf_signed_def)
  show ?thesis
  proof (cases "P_O2 params < 0")
    case True
    then show ?thesis
      unfolding calc_nernst_voltage_def Let_def dv by (simp add: py_pow_half_def)
  next
    case False
    then have pw: "py_pow_half (P_O2 params) = Fin (sqrt (P_O2 params))"
      by (simp add: py_pow_half_def)
    show ?thesis
    proof (cases "P_H2 params = 0 \<or> P_O2 params = 0")
      case True
      then have p0: "P_H2 params * sqrt (P_O2 params) = 0" by auto
      have "np_log (np_mul (Fin (P_H2 params)) (Fin (sqrt (P_O2 params)))) = NInf"
        unfolding np_mul.simps p0 by simp
      with True False show ?thesis
        unfolding calc_nernst_voltage_def Let_def dv pw
        by (simp only: np_mul.simps sg add_inf_signed sum.case if_True if_False)
    next
      case nz: False
      with False assms(2) have "P_H2 params < 0" and "0 < sqrt (P_O2 params)"
        by auto
      then have "P_H2 params * sqrt (P_O2 params) < 0"
        by (rule mult_neg_pos)
      then have "\<not> 0 < P_H2 params * sqrt (P_O2 params)"
        and "P_H2 params * sqrt (P_O2 params) \<noteq> 0"
        by linarith+
      then have "np_log (np_mul (Fin (P_H2 params)) (Fin (sqrt (P_O2 params)))) = NaN"
        by (simp only: np_mul.simps np_log.simps if_False)
      with nz False show ?thesis
        unfolding calc_nernst_voltage_def Let_def dv pw
        by (simp only: np_mul.simps np_add.simps sum.case if_True if_False)
    qed
  qed
qed

text \<open>The theorem at a negative hydrogen pressure and at a negative oxygen pressure.\<close>

theorem nernst_nonpositive_pressure_witness:
  "std_constants (FuelCellParameters_init 353 (- 1) 3)
   \<and> P_H2 (FuelCellParameters_init 353 (- 1) 3) \<le> 0
   \<and> calc_nernst_voltage (FuelCellParameters_init 353 (- 1) 3) = Inr NaN
   \<and> std_constants (FuelCellParameters_init 353 3 (- 1))
   \<and> P_O2 (FuelCellParameters_init 353 3 (- 1)) \<le> 0
   \<and> calc_nernst_voltage (FuelCellParameters_init 353 3 (- 1)) = Inr Cplx"
proof -
  have a: "std_constants (FuelCellParameters_init 353 (- 1) 3)"
    and b: "P_H2 (FuelCellParameters_init 353 (- 1) 3) \<le> 0"
    and c: "std_constants (FuelCellParameters_init 353 3 (- 1))"
    and d: "P_O2 (FuelCellParameters_init 353 3 (- 1)) \<le> 0"
    by (simp_all add: FuelCellParameters_init_def std_constants_def)
  from b have b': "P_H2 (FuelCellParameters_init 353 (- 1) 3) \<le> 0
      \<or> P_O2 (FuelCellParameters_init 353 (- 1) 3) \<le> 0" by (rule disjI1)
  from d have d': "P_H2 (FuelCellParameters_init 353 3 (- 1)) \<le> 0
      \<or> P_O2 (FuelCellParameters_init 353 3 (- 1)) \<le> 0" by (rule disjI2)
  have x: "calc_nernst_voltage (FuelCellParameters_init 353 (- 1) 3) = Inr NaN"
    using nernst_nonpositive_pressure [OF a b']
    by (simp add: FuelCellParameters_init_def)
  have y: "calc_nernst_voltage (FuelCellParameters_init 353 3 (- 1)) = Inr Cplx"
    using nernst_nonpositive_pressure [OF c d']
    by (simp add: FuelCellParameters_init_def)
  show ?thesis by (intro conjI a b x c d y)
qed

text \<open>
  Claim C8 as stated fails: with \<open>P_H2 = 0\<close> the call returns \<open>-inf\<close> and raises no
  error.
\<close>

theorem nernst_zero_pressure_returns_neg_infinity:
  "calc_nernst_voltage (FuelCellParameters_init 353 0 1) = Inr NInf"
  by (simp add: calc_nernst_voltage_def FuelCellParameters_init_def py_div_def
      py_pow_half_def inf_signed_def)

section \<open>Activation loss\<close>

text \<open>
  Claim C3: for a current density \<open>i \<ge> 0\<close> (and \<open>alpha\<close>, \<open>F\<close> not zero, so that the
  Tafel slope exists) the activation loss is the finite number
  \<open>max 0 ((R * T / (2 * alpha * F)) * ln ((i + 1e-6) / 1e-3))\<close>, which is never
  negative; the logarithm's argument is positive, so \<open>np.log\<close> returns the logarithm,
  also at \<open>i = 0\<close>.
\<close>

theorem activation_formula:
  assumes "0 \<le> i" and "alpha params \<noteq> 0" and "F params \<noteq> 0"
  shows "calc_activation_loss i params =
      Inr (Fin (max 0 ((R params * T params / (2 * alpha params * F params))
                         * ln ((i + 0.000001) / 0.001))))
    \<and> 0 \<le> max 0 ((R params * T params / (2 * alpha params * F params))
                         * ln ((i + 0.000001) / 0.001))
    \<and> np_log (Fin ((i + 0.000001) / 0.001)) = Fin (ln ((i + 0.000001) / 0.001))"
proof -
  from assms(1) have pos: "0 < (i + 0.000001) / 0.001" by simp
  then have lg: "np_log (Fin ((i + 0.000001) / 0.001)) = Fin (ln ((i + 0.000001) / 0.001))"
    by simp
  from assms(2,3) have dv: "py_div (R params * T params) (2 * alpha params * F params)
      = Inr (R params * T params / (2 * alpha params * F params))"
    by (simp add: py_div_def)
  have "calc_activation_loss i params =
      Inr (Fin (max 0 ((R params * T params / (2 * alpha params * F params))
                         * ln ((i + 0.000001) / 0.001))))"
    unfolding calc_activation_loss_def dv v_act_elem_def Let_def lg by simp
  with lg show ?thesis by simp
qed

text \<open>
  The theorem at \<open>i = 0\<close> and the repository's parameter set: the raw Tafel term is
  negative there and the loss is floored at \<open>0\<close>.
\<close>

theorem activation_formula_witness:
  "(0::real) \<le> 0 \<and> alpha (FuelCellParameters_init 353 3 3) \<noteq> 0
   \<and> F (FuelCellParameters_init 353 3 3) \<noteq> 0
   \<and> calc_activation_loss 0 (FuelCellParameters_init 353 3 3) = Inr (Fin 0)"
proof -
  let ?p = "FuelCellParameters_init 353 3 3"
  have h: "(0::real) \<le> 0" "alpha ?p \<noteq> 0" "F ?p \<noteq> 0"
    by (simp_all add: FuelCellParameters_init_def)
  have "0 < R ?p * T ?p / (2 * alpha ?p * F ?p)"
    by (simp add: FuelCellParameters_init_def)
  moreover have "ln ((0 + 0.000001) / 0.001 :: real) < 0" by simp
  ultimately have "R ?p * T ?p / (2 * alpha ?p * F ?p) * ln ((0 + 0.000001) / 0.001) < 0"
    by (rule mult_pos_neg)
  then have "max 0 (R ?p * T ?p / (2 * alpha ?p * F ?p) * ln ((0 + 0.000001) / 0.001)) = 0"
    by simp
  with activation_formula [OF h] h show ?thesis by simp
qed

section \<open>Concentration loss\<close>

text \<open>
  Claim C5, as the code has it: for a limit that is a normal float64 number up to
  \<open>2 ^ 40\<close> and a temperature up to \<open>2 ^ 1020\<close> in magnitude (with the constructor's
  \<open>R\<close> and \<open>F\<close>), a current density at or beyond the limit raises nothing and gives
  the finite number \<open>- (R * T / (2 * F)) * ln (1 - (i_limit - 1e-4) / i_limit)\<close>, the
  value the calculator has at \<open>i = i_limit - 1e-4\<close>. The value is stated in exact
  arithmetic; the bounds are those inside which float64 keeps the guard and does not
  overflow.
\<close>

theorem concentration_saturates:
  assumes "std_constants params"
    and "2 powi (- 1022) \<le> i_limit params" and "i_limit params \<le> 2 ^ 40"
    and "\<bar>T params\<bar> \<le> 2 ^ 1020"
    and "i_limit params \<le> i"
  shows "calc_concentration_loss i params
           = calc_concentration_loss (i_limit params - 0.0001) params
    \<and> calc_concentration_loss i params =
        Inr (Fin (- (R params * T params / (2 * F params))
                   * ln (1 - (i_limit params - 0.0001) / i_limit params)))"
proof -
  have "(0::real) < 2 powi (- 1022)" by simp
  with assms(2) have lpos: "0 < i_limit params" by linarith
  from assms(1) have Fnz: "F params \<noteq> 0" by (simp add: std_constants_def)
  from assms(5) have s1: "i_safe_elem params i = i_limit params - 0.0001"
    by (simp add: i_safe_elem_def)
  have s2: "i_safe_elem params (i_limit params - 0.0001) = i_limit params - 0.0001"
    by (simp add: i_safe_elem_def)
  from Fnz have dv: "py_div (R params * T params) (2 * F params)
      = Inr (R params * T params / (2 * F params))"
    by (simp add: py_div_def)
  from lpos have "1 - (i_limit params - 0.0001) / i_limit params = 0.0001 / i_limit params"
    by (simp add: field_simps)
  with lpos have pos: "0 < 1 - (i_limit params - 0.0001) / i_limit params"
    by simp
  from lpos have "np_sub (Fin 1) (np_divide (i_limit params - 0.0001) (i_limit params))
      = Fin (1 - (i_limit params - 0.0001) / i_limit params)"
    by (simp add: np_sub_def np_divide_def)
  with pos have ve: "v_conc_elem params c (i_limit params - 0.0001)
      = Fin (- c * ln (1 - (i_limit params - 0.0001) / i_limit params))" for c
    by (simp add: v_conc_elem_def)
  show ?thesis
    unfolding calc_concentration_loss_def Let_def s1 s2 dv ve by simp
qed

text \<open>The theorem at \<open>i = 2\<close>, beyond the repository's limit \<open>1.8\<close>.\<close>

theorem concentration_saturates_witness:
  "std_constants (FuelCellParameters_init 353 3 3)
   \<and> 2 powi (- 1022) \<le> i_limit (FuelCellParameters_init 353 3 3)
   \<and> i_limit (FuelCellParameters_init 353 3 3) \<le> 2 ^ 40
   \<and> \<bar>T (FuelCellParameters_init 353 3 3)\<bar> \<le> 2 ^ 1020
   \<and> i_limit (FuelCellParameters_init 353 3 3) \<le> 2
   \<and> calc_concentration_loss 2 (FuelCellParameters_init 353 3 3)
       = calc_concentration_loss (1.8 - 0.0001) (FuelCellParameters_init 353 3 3)
   \<and> calc_concentration_loss 2 (FuelCellParameters_init 353 3 3)
       = Inr (Fin (- (8.314 * 353 / (2 * 96485)) * ln (1 - (1.8 - 0.0001) / 1.8)))"
proof -
  let ?p = "FuelCellParameters_init 353 3 3"
  have f: "i_limit ?p = 1.8" "R ?p = 8.314" "T ?p = 353" "F ?p = 96485"
    by (simp_all add: FuelCellParameters_init_def)
  have h: "std_constants ?p" "2 powi (- 1022) \<le> i_limit ?p" "i_limit ?p \<le> 2 ^ 40"
    "\<bar>T ?p\<bar> \<le> 2 ^ 1020" "i_limit ?p \<le> 2"
    by (simp_all add: f std_constants_def)
  note c = concentration_saturates [OF h, unfolded f]
  from c have a: "calc_concentration_loss 2 ?p = calc_concentration_loss (1.8 - 0.0001) ?p"
    by (rule conjunct1)
  from c have b: "calc_concentration_loss 2 ?p
      = Inr (Fin (- (8.314 * 353 / (2 * 96485)) * ln (1 - (1.8 - 0.0001) / 1.8)))"
    by (rule conjunct2)
  show ?thesis by (intro conjI h a b)
qed

subsection \<open>The guard in float64\<close>

lemma round_half_even_bounds:
  "\<bar>of_int (round_half_even x) - x\<bar> \<le> 1 / 2"
proof -
  have "of_int \<lfloor>x\<rfloor> \<le> x" "x < of_int \<lfloor>x\<rfloor> + 1" by linarith+
  then show ?thesis
    by (auto simp: round_half_even_def Let_def)
qed

lemma floor_log2:
  assumes "2 powi n \<le> x" and "x < 2 powi (n + 1)"
  shows "\<lfloor>log 2 x\<rfloor> = n"
proof -
  have "(0::real) < 2 powi n" by simp
  with assms(1) have pos: "0 < x" by linarith
  have a: "(2::real) powr real_of_int n = 2 powi n"
    by (rule powr_real_of_int') simp_all
  have b: "(2::real) powr (real_of_int n + 1) = 2 powi (n + 1)"
    using powr_real_of_int' [of "2::real" "n + 1"] by simp
  show ?thesis
    using assms pos by (simp add: floor_log_eq_powr_iff a b)
qed

lemma ex_exponent:
  assumes "0 < x"
  shows "2 powi \<lfloor>log 2 x\<rfloor> \<le> x \<and> x < 2 powi (\<lfloor>log 2 x\<rfloor> + 1)"
proof -
  have a: "(2::real) powr real_of_int n = 2 powi n" for n
    by (rule powr_real_of_int') simp_all
  have b: "(2::real) powr (real_of_int n + 1) = 2 powi (n + 1)" for n
    using powr_real_of_int' [of "2::real" "n + 1"] by simp
  have "2 powr real_of_int \<lfloor>log 2 x\<rfloor> \<le> x
      \<and> x < 2 powr (real_of_int \<lfloor>log 2 x\<rfloor> + 1)"
    using floor_log_eq_powr_iff [of x 2 "\<lfloor>log 2 x\<rfloor>"] assms by simp
  then show ?thesis
    unfolding a b .
qed

lemma f64_round_normal:
  assumes lo: "2 powi (- 1022) \<le> \<bar>x\<bar>" and hi: "\<bar>x\<bar> < 2 ^ 1023"
  shows "\<exists>y. f64_round x = Fin y \<and> \<bar>y - x\<bar> \<le> \<bar>x\<bar> / 2 ^ 53"
proof -
  define n where "n = \<lfloor>log 2 \<bar>x\<bar>\<rfloor>"
  have "(0::real) < 2 powi (- 1022)" by simp
  with lo have xpos: "0 < \<bar>x\<bar>" by linarith
  then have xnz: "x \<noteq> 0" by simp
  from ex_exponent [OF xpos] have n1: "2 powi n \<le> \<bar>x\<bar>" and n2: "\<bar>x\<bar> < 2 powi (n + 1)"
    by (simp_all add: n_def)
  have nlo: "- 1022 \<le> n"
  proof (rule ccontr)
    assume "\<not> - 1022 \<le> n"
    then have "n + 1 \<le> - 1022" by simp
    then have "(2::real) powi (n + 1) \<le> 2 powi (- 1022)"
      by (rule power_int_increasing) simp
    with n2 lo show False by linarith
  qed
  have nhi: "n \<le> 1022"
  proof (rule ccontr)
    assume "\<not> n \<le> 1022"
    then have "1023 \<le> n" by simp
    then have "(2::real) powi 1023 \<le> 2 powi n"
      by (rule power_int_increasing) simp
    with n1 hi show False by simp
  qed
  define p where "p = (2::real) powi (n - 52)"
  have ppos: "0 < p" by (simp add: p_def)
  have pn: "p * 2 ^ 52 = 2 powi n"
    unfolding p_def by (simp add: power_int_diff)
  have "max (n - 52) (- 1074) = n - 52"
    using nlo by linarith
  then have e: "max (\<lfloor>log 2 \<bar>x\<bar>\<rfloor> - 52) (- 1074) = n - 52"
    unfolding n_def .
  define m where "m = round_half_even (x / p)"
  define y where "y = of_int m * p"
  have "\<bar>of_int m - x / p\<bar> \<le> 1 / 2"
    unfolding m_def by (rule round_half_even_bounds)
  then have "\<bar>of_int m - x / p\<bar> * p \<le> 1 / 2 * p"
    using ppos by (simp add: mult_right_mono)
  moreover have "\<bar>of_int m - x / p\<bar> * p = \<bar>y - x\<bar>"
  proof -
    have "\<bar>of_int m - x / p\<bar> * p = \<bar>(of_int m - x / p) * p\<bar>"
      using ppos by (simp add: abs_mult)
    also have "(of_int m - x / p) * p = y - x"
      using ppos by (simp add: y_def field_simps)
    finally show ?thesis .
  qed
  ultimately have d1: "\<bar>y - x\<bar> \<le> p / 2" by simp
  have "p = 2 powi n / 2 ^ 52" using pn by (simp add: field_simps)
  with n1 have "p \<le> \<bar>x\<bar> / 2 ^ 52" by (simp add: divide_right_mono)
  with d1 have err: "\<bar>y - x\<bar> \<le> \<bar>x\<bar> / 2 ^ 53" by simp
  have "\<bar>y\<bar> \<le> \<bar>x\<bar> + \<bar>y - x\<bar>" by linarith
  with err have "\<bar>y\<bar> \<le> \<bar>x\<bar> + \<bar>x\<bar> / 2 ^ 53" by linarith
  also have "\<dots> < 2 ^ 1023 + 2 ^ 1023 / 2 ^ 53"
    using hi by (simp add: add_strict_mono divide_strict_right_mono)
  also have "\<dots> \<le> (2::real) ^ 1024" by simp
  finally have nov: "\<not> 2 ^ 1024 \<le> \<bar>y\<bar>" by simp
  have "f64_round x = Fin y"
    using xnz nov unfolding f64_round_def e Let_def y_def m_def p_def by simp
  with err show ?thesis by blast
qed

lemma round_half_even_near:
  assumes "\<bar>x - of_int k\<bar> < 1 / 2"
  shows "round_half_even x = k"
proof (cases "of_int k \<le> x")
  case True
  with assms have "\<lfloor>x\<rfloor> = k" by (intro floor_unique) linarith+
  with assms True show ?thesis
    by (simp add: round_half_even_def Let_def)
next
  case False
  have km: "real_of_int (k - 1) = of_int k - 1" by simp
  from assms False have "of_int (k - 1) \<le> x" and "x < of_int (k - 1) + 1"
    unfolding km by linarith+
  then have f: "\<lfloor>x\<rfloor> = k - 1" by (rule floor_unique)
  from assms False have "x - of_int (k - 1) > 1 / 2" unfolding km by linarith
  with f show ?thesis
    by (simp add: round_half_even_def Let_def)
qed

lemma f64_round_near:
  assumes n1: "2 powi n \<le> \<bar>x\<bar>" and n2: "\<bar>x\<bar> < 2 powi (n + 1)"
    and nlo: "- 1022 \<le> n"
    and z: "z = of_int k * 2 powi (n - 52)"
    and near: "\<bar>x - z\<bar> < 2 powi (n - 52) / 2"
    and zhi: "\<bar>z\<bar> < 2 ^ 1024"
  shows "f64_round x = Fin z"
proof -
  have "(0::real) < 2 powi n" by simp
  with n1 have xpos: "0 < \<bar>x\<bar>" by linarith
  then have xnz: "x \<noteq> 0" by simp
  have fl: "\<lfloor>log 2 \<bar>x\<bar>\<rfloor> = n" using n1 n2 by (rule floor_log2)
  have "max (n - 52) (- 1074) = n - 52" using nlo by linarith
  then have e: "max (\<lfloor>log 2 \<bar>x\<bar>\<rfloor> - 52) (- 1074) = n - 52" unfolding fl .
  define p where "p = (2::real) powi (n - 52)"
  have ppos: "0 < p" by (simp add: p_def)
  have "x / p - of_int k = (x - z) / p"
    using ppos by (simp add: z p_def field_simps)
  then have "\<bar>x / p - of_int k\<bar> = \<bar>x - z\<bar> / p"
    using ppos by simp
  also have "\<dots> < (p / 2) / p"
    using near ppos unfolding p_def by (simp add: divide_strict_right_mono)
  also have "\<dots> = 1 / 2" using ppos by simp
  finally have "round_half_even (x / p) = k" by (rule round_half_even_near)
  then have y: "of_int (round_half_even (x / 2 powi (n - 52))) * 2 powi (n - 52) = z"
    by (simp add: z p_def)
  from zhi have "\<not> 2 ^ 1024 \<le> \<bar>z\<bar>" by simp
  then show ?thesis
    using xnz unfolding f64_round_def e Let_def y by simp
qed

lemma round_half_even_ge:
  assumes "of_int k \<le> x"
  shows "k \<le> round_half_even x"
proof -
  from assms have "k \<le> \<lfloor>x\<rfloor>" by (simp add: le_floor_iff)
  then show ?thesis by (auto simp: round_half_even_def Let_def)
qed

lemma round_half_even_le:
  assumes "x \<le> of_int k"
  shows "round_half_even x \<le> k"
proof (cases "x = of_int k")
  case True
  then show ?thesis by (simp add: round_half_even_def Let_def)
next
  case False
  with assms have "x < of_int k" by simp
  then have "\<lfloor>x\<rfloor> < k" by (simp add: floor_less_iff)
  then have "\<lfloor>x\<rfloor> + 1 \<le> k" by simp
  then show ?thesis by (auto simp: round_half_even_def Let_def)
qed

lemma f64_round_overflow:
  assumes "2 ^ 1024 \<le> \<bar>x\<bar>"
  shows "f64_round x = inf_signed x"
proof -
  define n where "n = \<lfloor>log 2 \<bar>x\<bar>\<rfloor>"
  have "(0::real) < 2 ^ 1024" by simp
  with assms have xpos: "0 < \<bar>x\<bar>" by linarith
  then have xnz: "x \<noteq> 0" by simp
  from ex_exponent [OF xpos] have n1: "2 powi n \<le> \<bar>x\<bar>" and n2: "\<bar>x\<bar> < 2 powi (n + 1)"
    by (simp_all add: n_def)
  have nhi: "1024 \<le> n"
  proof (rule ccontr)
    assume "\<not> 1024 \<le> n"
    then have "n + 1 \<le> 1024" by simp
    then have "(2::real) powi (n + 1) \<le> 2 powi 1024"
      by (rule power_int_increasing) simp
    with n2 assms show False by simp
  qed
  then have "max (n - 52) (- 1074) = n - 52" by linarith
  then have e: "max (\<lfloor>log 2 \<bar>x\<bar>\<rfloor> - 52) (- 1074) = n - 52" unfolding n_def .
  define p where "p = (2::real) powi (n - 52)"
  have ppos: "0 < p" by (simp add: p_def)
  have pn: "p * 2 ^ 52 = 2 powi n"
    unfolding p_def by (simp add: power_int_diff)
  define m where "m = round_half_even (x / p)"
  have big: "2 ^ 52 \<le> \<bar>of_int m :: real\<bar>"
  proof (cases "0 \<le> x")
    case True
    with n1 pn have "p * 2 ^ 52 \<le> x" by simp
    then have "of_int (2 ^ 52) \<le> x / p" using ppos by (simp add: field_simps)
    then have "2 ^ 52 \<le> m" unfolding m_def by (rule round_half_even_ge)
    then have "(2::real) ^ 52 \<le> of_int m" by (metis of_int_le_iff of_int_numeral of_int_power)
    then show ?thesis by simp
  next
    case False
    with n1 pn have "x \<le> - (p * 2 ^ 52)" by simp
    then have "x / p \<le> of_int (- (2 ^ 52))" using ppos by (simp add: field_simps)
    then have "m \<le> - (2 ^ 52)" unfolding m_def by (rule round_half_even_le)
    then have "of_int m \<le> - ((2::real) ^ 52)"
      by (metis of_int_le_iff of_int_minus of_int_numeral of_int_power)
    then show ?thesis by simp
  qed
  have "\<bar>of_int m * p\<bar> = \<bar>of_int m :: real\<bar> * p" using ppos by (simp add: abs_mult)
  moreover from big ppos have "2 ^ 52 * p \<le> \<bar>of_int m :: real\<bar> * p"
    by (simp add: mult_right_mono)
  ultimately have "2 powi n \<le> \<bar>of_int m * p\<bar>" using pn by (simp add: mult.commute)
  moreover have "(2::real) powi 1024 \<le> 2 powi n"
    using nhi by (rule power_int_increasing) simp
  ultimately have "2 ^ 1024 \<le> \<bar>of_int m * p\<bar>" by simp
  then show ?thesis
    using xnz unfolding f64_round_def e Let_def m_def p_def by simp
qed

lemma f64_round_interval:
  assumes "a \<le> x" and "x \<le> b" and "2 powi (- 1022) \<le> a" and "b < 2 ^ 1023"
  shows "\<exists>y. f64_round x = Fin y \<and> a * (1 - 1 / 2 ^ 53) \<le> y \<and> y \<le> b * (1 + 1 / 2 ^ 53)"
proof -
  have "(0::real) < 2 powi (- 1022)" by simp
  with assms(3) have apos: "0 < a" by linarith
  with assms have ax: "\<bar>x\<bar> = x" by simp
  from assms have "2 powi (- 1022) \<le> \<bar>x\<bar>" and "\<bar>x\<bar> < 2 ^ 1023" unfolding ax by linarith+
  from f64_round_normal [OF this] obtain y where
    y: "f64_round x = Fin y" and e: "\<bar>y - x\<bar> \<le> x / 2 ^ 53"
    unfolding ax by blast
  have "a * (1 - 1 / 2 ^ 53) \<le> x * (1 - 1 / 2 ^ 53)"
    using assms(1) by (intro mult_right_mono) simp_all
  moreover have "x * (1 + 1 / 2 ^ 53) \<le> b * (1 + 1 / 2 ^ 53)"
    using assms(2) by (intro mult_right_mono) simp_all
  moreover have "x * (1 - 1 / 2 ^ 53) \<le> y" and "y \<le> x * (1 + 1 / 2 ^ 53)"
  proof -
    define q where "q = x / 2 ^ 53"
    from e have e1: "y - x \<le> q" and e2: "x - y \<le> q" unfolding q_def by linarith+
    have l: "x * (1 - 1 / 2 ^ 53) = x - q" and u: "x * (1 + 1 / 2 ^ 53) = x + q"
      unfolding q_def by (simp_all add: algebra_simps)
    show "x * (1 - 1 / 2 ^ 53) \<le> y" unfolding l using e2 by linarith
    show "y \<le> x * (1 + 1 / 2 ^ 53)" unfolding u using e1 by linarith
  qed
  ultimately show ?thesis using y by (intro exI [of _ y]) linarith
qed

lemma f64_norm_Fin: "f64_norm (Fin x) = f64_round x"
  by (simp add: f64_norm_def)

lemma f64_round_1: "f64_round 1 = Fin 1"
  by (rule f64_round_near [where n = 0 and k = "2 ^ 52"]) simp_all

lemma f64_literal_guard:
  "\<exists>c. f64_round 0.0001 = Fin c \<and> 0.000099 \<le> c \<and> c \<le> 0.000101"
proof -
  have "\<exists>y. f64_round 0.0001 = Fin y \<and> 0.0001 * (1 - 1 / 2 ^ 53) \<le> y
      \<and> y \<le> 0.0001 * (1 + 1 / 2 ^ 53)"
    by (rule f64_round_interval) simp_all
  then obtain c where "f64_round 0.0001 = Fin c" and "0.0001 * (1 - 1 / 2 ^ 53) \<le> c"
    and "c \<le> 0.0001 * (1 + 1 / 2 ^ 53)" by blast
  then show ?thesis by (intro exI [of _ c]) simp
qed

lemma f64_round_in:
  assumes "a \<le> x" and "x \<le> b" and "2 powi (- 1022) \<le> a" and "b < 2 ^ 1023"
    and "a' \<le> a * (1 - 1 / 2 ^ 53)" and "b * (1 + 1 / 2 ^ 53) \<le> b'"
  obtains y where "f64_round x = Fin y" and "a' \<le> y" and "y \<le> b'"
proof -
  from f64_round_interval [OF assms(1-4)] obtain y where
    "f64_round x = Fin y" and "a * (1 - 1 / 2 ^ 53) \<le> y" and "y \<le> b * (1 + 1 / 2 ^ 53)"
    by blast
  with assms(5,6) show ?thesis by (intro that [of y]) linarith+
qed

lemma term_conc_f64:
  "\<exists>tc. py_div_f64 (f64_norm (np_mul (f64_round 8.314) (f64_round 353)))
           (f64_norm (np_mul (Fin 2) (f64_round 96485))) = Inr (Fin tc)
        \<and> 0.014 \<le> tc \<and> tc \<le> 0.017"
proof -
  obtain r where r: "f64_round 8.314 = Fin r" and rb: "8 \<le> r" "r \<le> 9"
    by (rule f64_round_in [of "8.314" "8.314" "8.314" 8 9]) simp_all
  obtain t where t: "f64_round 353 = Fin t" and tb: "352 \<le> t" "t \<le> 354"
    by (rule f64_round_in [of 353 353 353 352 354]) simp_all
  from rb tb have "8 * 352 \<le> r * t" and "r * t \<le> 9 * 354"
    by (intro mult_mono; simp)+
  then have rt: "2816 \<le> r * t" "r * t \<le> 3186" by simp_all
  obtain u where u: "f64_round (r * t) = Fin u" and ub: "2800 \<le> u" "u \<le> 3200"
    by (rule f64_round_in [OF rt, of 2800 3200]) simp_all
  obtain f where f: "f64_round 96485 = Fin f" and fb: "96484 \<le> f" "f \<le> 96486"
    by (rule f64_round_in [of 96485 96485 96485 96484 96486]) simp_all
  from fb have f2: "192968 \<le> 2 * f" "2 * f \<le> 192972" by simp_all
  obtain w where w: "f64_round (2 * f) = Fin w" and wb: "192000 \<le> w" "w \<le> 193000"
    by (rule f64_round_in [OF f2, of 192000 193000]) simp_all
  from ub wb have "2800 / 193000 \<le> u / w" and "u / w \<le> 3200 / 192000"
    by (intro frac_le; simp)+
  then have q: "0.0145 \<le> u / w" "u / w \<le> 0.0167" by simp_all
  obtain tc where tc: "f64_round (u / w) = Fin tc" and tcb: "0.014 \<le> tc" "tc \<le> 0.017"
    by (rule f64_round_in [OF q, of "0.014" "0.017"]) simp_all
  from wb have wnz: "w \<noteq> 0" by simp
  have "py_div_f64 (f64_norm (np_mul (f64_round 8.314) (f64_round 353)))
           (f64_norm (np_mul (Fin 2) (f64_round 96485))) = Inr (Fin tc)"
    unfolding r t f np_mul.simps f64_norm_Fin u w
    using wnz by (simp add: py_div_f64_def np_divide_def f64_norm_Fin tc)
  with tcb show ?thesis by blast
qed

lemma ln_lower: 
  fixes x :: real
  assumes "0 < x"
  shows "1 - 1 / x \<le> ln x"
proof -
  from assms have "0 < 1 / x" by simp
  then have "ln (1 / x) \<le> 1 / x - 1" by (rule ln_le_minus_one)
  moreover have "ln (1 / x) = - ln x" using assms by (simp add: ln_div)
  ultimately show ?thesis by simp
qed

lemma f64_round_neg_in:
  assumes "a \<le> x" and "x \<le> b" and "b < 0" and "b \<le> - (2 powi (- 1022))" and "- (2 ^ 1023) < a"
  obtains y where "f64_round x = Fin y" and "a + a / 2 ^ 53 \<le> y" and "y \<le> b - b / 2 ^ 53"
proof -
  from assms have ax: "\<bar>x\<bar> = - x" by simp
  from assms have "2 powi (- 1022) \<le> \<bar>x\<bar>" and "\<bar>x\<bar> < 2 ^ 1023" unfolding ax by linarith+
  from f64_round_normal [OF this] obtain y where
    y: "f64_round x = Fin y" and e: "\<bar>y - x\<bar> \<le> (- x) / 2 ^ 53"
    unfolding ax by blast
  define q where "q = (- x) / 2 ^ 53"
  from e have e1: "y - x \<le> q" and e2: "x - y \<le> q" unfolding q_def by linarith+
  have "(- x) / 2 ^ 53 \<le> (- a) / 2 ^ 53" using assms(1) by (simp add: divide_right_mono)
  then have qa: "q \<le> - (a / 2 ^ 53)" unfolding q_def by simp
  have "(- b) / 2 ^ 53 \<le> (- x) / 2 ^ 53" using assms(2) by (simp add: divide_right_mono)
  then have qb: "- (b / 2 ^ 53) \<le> q" unfolding q_def by simp
  have "0 \<le> q" unfolding q_def using assms by simp
  show ?thesis
  proof (rule that [of y])
    show "f64_round x = Fin y" by (fact y)
    show "a + a / 2 ^ 53 \<le> y" using e2 qa assms(1) by linarith
    have "(- x) / 2 ^ 53 \<le> (- x)" using assms by (simp add: field_simps)
    have "x + q \<le> b - b / 2 ^ 53"
    proof -
      have "x + q = x * (1 - 1 / 2 ^ 53)" unfolding q_def by (simp add: algebra_simps)
      also have "\<dots> \<le> b * (1 - 1 / 2 ^ 53)"
        using assms(2) by (intro mult_right_mono) simp_all
      also have "\<dots> = b - b / 2 ^ 53" by (simp add: algebra_simps)
      finally show ?thesis .
    qed
    with e1 show "y \<le> b - b / 2 ^ 53" by linarith
  qed
qed

lemma guard_chain_unit:
  "\<exists>l. f64_norm (np_log (f64_norm (np_sub (Fin 1)
           (f64_norm (np_true_divide
              (np_minimum (f64_round 1)
                 (f64_norm (np_sub (f64_round 1) (f64_round 0.0001))))
              (f64_round 1)))))) = Fin l
       \<and> - 14300 \<le> l \<and> l \<le> - 0.89"
proof -
  from f64_literal_guard obtain c where
    c: "f64_round 0.0001 = Fin c" and cb: "0.000099 \<le> c" "c \<le> 0.000101" by blast
  from cb have x1: "0.999899 \<le> 1 - c" "1 - c \<le> 0.999901" by simp_all
  obtain lim where lim: "f64_round (1 - c) = Fin lim"
    and limb: "0.9998 \<le> lim" "lim \<le> 0.99991"
    by (rule f64_round_in [OF x1, of "0.9998" "0.99991"]) simp_all
  from limb have m: "min 1 lim = lim" by simp
  obtain q where q: "f64_round lim = Fin q" and qb: "0.9997 \<le> q" "q \<le> 0.99992"
    by (rule f64_round_in [OF limb, of "0.9997" "0.99992"]) simp_all
  from qb have x2: "0.00008 \<le> 1 - q" "1 - q \<le> 0.0003" by simp_all
  obtain d where d: "f64_round (1 - q) = Fin d" and db: "0.00007 \<le> d" "d \<le> 0.0004"
    by (rule f64_round_in [OF x2, of "0.00007" "0.0004"]) simp_all
  from db have dpos: "0 < d" by simp
  have "ln d \<le> d - 1" using dpos by (rule ln_le_minus_one)
  with db have l2: "ln d \<le> - 0.9" by simp
  have "1 / d \<le> 1 / 0.00007" using db by (intro frac_le) simp_all
  moreover have "1 - 1 / d \<le> ln d" using dpos by (rule ln_lower)
  ultimately have l1: "- 14290 \<le> ln d" by simp
  obtain l where l: "f64_round (ln d) = Fin l"
    and lb: "- 14290 + (- 14290) / 2 ^ 53 \<le> l" "l \<le> - 0.9 - (- 0.9) / 2 ^ 53"
    by (rule f64_round_neg_in [OF l1 l2]) simp_all
  from lb have lb': "- 14300 \<le> l" "l \<le> - 0.89" by simp_all
  have "f64_norm (np_log (f64_norm (np_sub (Fin 1)
           (f64_norm (np_true_divide
              (np_minimum (f64_round 1)
                 (f64_norm (np_sub (f64_round 1) (f64_round 0.0001))))
              (f64_round 1)))))) = Fin l"
    unfolding f64_round_1 c
    using dpos by (simp add: np_sub_def f64_norm_Fin lim m np_divide_def q d l)
  with lb' show ?thesis by blast
qed

lemma f64_round_above_2_40: "f64_round (2 ^ 40 + 1 / 2 ^ 12) = Fin (2 ^ 40 + 1 / 2 ^ 12)"
  by (rule f64_round_near [where n = 40 and k = "2 ^ 52 + 1"]) simp_all

lemma guard_absorbed:
  "f64_norm (np_sub (Fin (2 ^ 40 + 1 / 2 ^ 12)) (f64_round 0.0001))
     = Fin (2 ^ 40 + 1 / 2 ^ 12)"
proof -
  from f64_literal_guard obtain c where
    c: "f64_round 0.0001 = Fin c" and cb: "0.000099 \<le> c" "c \<le> 0.000101" by blast
  define L :: real where "L = 2 ^ 40 + 1 / 2 ^ 12"
  have Lv: "L = 1099511627776 + 1 / 4096" by (simp add: L_def)
  have pos: "0 < L - c" using cb unfolding Lv by simp
  have "f64_round (L - c) = Fin L"
  proof (rule f64_round_near [where n = 40 and k = "2 ^ 52 + 1"])
    show "2 powi 40 \<le> \<bar>L - c\<bar>" using cb unfolding Lv by simp
    show "\<bar>L - c\<bar> < 2 powi (40 + 1)" using cb unfolding Lv by simp
    show "- 1022 \<le> (40::int)" by simp
    show "L = real_of_int (2 ^ 52 + 1) * 2 powi (40 - 52)" unfolding Lv by simp
    show "\<bar>L - c - L\<bar> < 2 powi (40 - 52) / 2" using cb by simp
    show "\<bar>L\<bar> < 2 ^ 1024" unfolding Lv by simp
  qed
  then show ?thesis
    unfolding c L_def by (simp add: np_sub_def f64_norm_Fin)
qed

lemma concentration_f64_absorbed:
  "calc_concentration_loss_f64 (2 ^ 40 + 1 / 2 ^ 12)
     ((FuelCellParameters_init 353 3 3)\<lparr>i_limit := 2 ^ 40 + 1 / 2 ^ 12\<rparr>) = Inr PInf"
proof -
  from term_conc_f64 obtain tc where
    tc: "py_div_f64 (f64_norm (np_mul (f64_round 8.314) (f64_round 353)))
           (f64_norm (np_mul (Fin 2) (f64_round 96485))) = Inr (Fin tc)"
    and tcb: "0.014 \<le> tc" by blast
  have one: "np_true_divide (Fin (2 ^ 40 + 1 / 2 ^ 12)) (Fin (2 ^ 40 + 1 / 2 ^ 12)) = Fin 1"
    by (simp add: np_divide_def)
  have zero: "f64_norm (np_sub (Fin 1) (Fin 1)) = Fin 0"
    by (simp add: np_sub_def f64_norm_Fin f64_round_def)
  have inf: "f64_norm (np_mul (np_neg (Fin tc)) (f64_norm (np_log (Fin 0)))) = PInf"
    using tcb by (simp add: f64_norm_def inf_signed_def)
  let ?p = "(FuelCellParameters_init 353 3 3)\<lparr>i_limit := 2 ^ 40 + 1 / 2 ^ 12\<rparr>"
  have fields: "R ?p = 8.314" "T ?p = 353" "F ?p = 96485" "i_limit ?p = 2 ^ 40 + 1 / 2 ^ 12"
    by (simp_all add: FuelCellParameters_init_def)
  show ?thesis
    by (simp only: calc_concentration_loss_f64_def Let_def fields tc sum.case
        guard_absorbed f64_round_above_2_40 np_minimum.simps min.idem one f64_norm_Fin
        f64_round_1 zero inf)
qed

lemma tiny_limit: "(0::real) < 2 powi (- 1074)" "(2::real) powi (- 1074) \<le> 0.000001"
proof -
  show "(0::real) < 2 powi (- 1074)" by simp
  have "(2::real) powi (- 1074) \<le> 2 powi (- 20)"
    by (rule power_int_increasing) simp_all
  also have "\<dots> \<le> 0.000001" by simp
  finally show "(2::real) powi (- 1074) \<le> 0.000001" .
qed

lemma f64_round_tiny: "f64_round (2 powi (- 1074)) = Fin (2 powi (- 1074))"
proof -
  define x :: real where "x = 2 powi (- 1074)"
  have xpos: "0 < x" by (simp add: x_def)
  have "x < 2 powi (- 1074 + 1)"
    unfolding x_def by (rule power_int_strict_increasing) simp_all
  with xpos have "\<lfloor>log 2 \<bar>x\<bar>\<rfloor> = - 1074"
    by (intro floor_log2) (simp_all add: x_def)
  then have e: "max (\<lfloor>log 2 \<bar>x\<bar>\<rfloor> - 52) (- 1074) = - 1074" by simp
  have one: "x / 2 powi (- 1074) = 1" by (simp add: x_def)
  have r: "round_half_even 1 = 1" by (rule round_half_even_near) simp
  have "x \<le> 0.000001" unfolding x_def by (rule tiny_limit)
  then have "\<not> 2 ^ 1024 \<le> \<bar>x\<bar>" using xpos by simp
  moreover have "x \<noteq> 0" using xpos by simp
  ultimately have "f64_round x = Fin x"
    unfolding f64_round_def e Let_def one r by (simp add: x_def)
  then show ?thesis unfolding x_def .
qed

lemma guard_tiny:
  "\<exists>y. f64_norm (np_sub (Fin (2 powi (- 1074))) (f64_round 0.0001)) = Fin y
      \<and> - 0.00011 \<le> y \<and> y \<le> - 0.00009"
proof -
  from f64_literal_guard obtain c where
    c: "f64_round 0.0001 = Fin c" and cb: "0.000099 \<le> c" "c \<le> 0.000101" by blast
  from cb tiny_limit have x: "- 0.000101 \<le> 2 powi (- 1074) - c" "2 powi (- 1074) - c \<le> - 0.000098"
    by linarith+
  obtain y where y: "f64_round (2 powi (- 1074) - c) = Fin y"
    and yb: "- 0.000101 + (- 0.000101) / 2 ^ 53 \<le> y" "y \<le> - 0.000098 - (- 0.000098) / 2 ^ 53"
    by (rule f64_round_neg_in [OF x]) simp_all
  from yb have "- 0.00011 \<le> y" "y \<le> - 0.00009" by simp_all
  moreover have "f64_norm (np_sub (Fin (2 powi (- 1074))) (f64_round 0.0001)) = Fin y"
    unfolding c by (simp only: np_sub_def np_neg.simps np_add.simps f64_norm_Fin
        diff_conv_add_uminus [symmetric] y)
  ultimately show ?thesis by blast
qed

lemma concentration_f64_tiny_limit:
  "calc_concentration_loss_f64 (2 powi (- 1074))
     ((FuelCellParameters_init 353 3 3)\<lparr>i_limit := 2 powi (- 1074)\<rparr>) = Inr NInf"
proof -
  from term_conc_f64 obtain tc where
    tc: "py_div_f64 (f64_norm (np_mul (f64_round 8.314) (f64_round 353)))
           (f64_norm (np_mul (Fin 2) (f64_round 96485))) = Inr (Fin tc)"
    and tcb: "0.014 \<le> tc" by blast
  from guard_tiny obtain y where
    y: "f64_norm (np_sub (Fin (2 powi (- 1074))) (f64_round 0.0001)) = Fin y"
    and yb: "y \<le> - 0.00009" by blast
  from yb tiny_limit(1) have m: "min (2 powi (- 1074)) y = y" by simp
  have dv: "np_true_divide (Fin y) (Fin (2 powi (- 1074))) = Fin (y * 2 ^ 1074)"
    by (simp add: np_divide_def power_int_minus field_simps)
  have "y * 2 ^ 1074 \<le> - 0.00009 * 2 ^ 1074" using yb by simp
  also have "\<dots> \<le> - (2 ^ 1024 :: real)" by simp
  finally have big: "y * 2 ^ 1074 \<le> - (2 ^ 1024)" .
  then have "2 ^ 1024 \<le> \<bar>y * 2 ^ 1074\<bar>" by linarith
  then have "f64_round (y * 2 ^ 1074) = inf_signed (y * 2 ^ 1074)"
    by (rule f64_round_overflow)
  also have "\<dots> = NInf" using big by (simp add: inf_signed_def)
  finally have q: "f64_round (y * 2 ^ 1074) = NInf" .
  have rest: "f64_norm (np_mul (np_neg (Fin tc))
      (f64_norm (np_log (f64_norm (np_sub (Fin 1) NInf))))) = NInf"
    using tcb by (simp add: np_sub_def f64_norm_def inf_signed_def)
  let ?p = "(FuelCellParameters_init 353 3 3)\<lparr>i_limit := 2 powi (- 1074)\<rparr>"
  have fields: "R ?p = 8.314" "T ?p = 353" "F ?p = 96485" "i_limit ?p = 2 powi (- 1074)"
    by (simp_all add: FuelCellParameters_init_def)
  show ?thesis
    by (simp only: calc_concentration_loss_f64_def Let_def fields tc sum.case
        f64_round_tiny y np_minimum.simps m dv f64_norm_Fin q rest)
qed

lemma term_conc_f64_overflow:
  "py_div_f64 (f64_norm (np_mul (f64_round 8.314) (f64_round (2 ^ 1021))))
           (f64_norm (np_mul (Fin 2) (f64_round 96485))) = Inr PInf"
proof -
  obtain r where r: "f64_round 8.314 = Fin r" and rb: "8.3 \<le> r" "r \<le> 8.4"
    by (rule f64_round_in [of "8.314" "8.314" "8.314" "8.3" "8.4"]) simp_all
  obtain t where t: "f64_round (2 ^ 1021) = Fin t"
    and tb: "0.99 * 2 ^ 1021 \<le> t" "t \<le> 1.01 * 2 ^ 1021"
    by (rule f64_round_in [of "2 ^ 1021" "2 ^ 1021" "2 ^ 1021" "0.99 * 2 ^ 1021"
          "1.01 * 2 ^ 1021"]) simp_all
  from rb tb have "8.3 * (0.99 * 2 ^ 1021) \<le> r * t"
    by (intro mult_mono; simp)
  moreover have "(2::real) ^ 1024 \<le> 8.3 * (0.99 * 2 ^ 1021)" by simp
  ultimately have big: "2 ^ 1024 \<le> r * t" by linarith
  then have "2 ^ 1024 \<le> \<bar>r * t\<bar>" by linarith
  then have "f64_round (r * t) = inf_signed (r * t)" by (rule f64_round_overflow)
  also have "\<dots> = PInf"
  proof -
    have "(0::real) < 2 ^ 1024" by simp
    with big have "0 < r * t" by linarith
    then show ?thesis by (simp add: inf_signed_def)
  qed
  finally have u: "f64_round (r * t) = PInf" .
  obtain f where f: "f64_round 96485 = Fin f" and fb: "96484 \<le> f" "f \<le> 96486"
    by (rule f64_round_in [of 96485 96485 96485 96484 96486]) simp_all
  from fb have f2: "192968 \<le> 2 * f" "2 * f \<le> 192972" by simp_all
  obtain w where w: "f64_round (2 * f) = Fin w" and wb: "192000 \<le> w" "w \<le> 193000"
    by (rule f64_round_in [OF f2, of 192000 193000]) simp_all
  from wb have "w \<noteq> 0" and "\<not> w < 0" by simp_all
  then show ?thesis
    unfolding r t f np_mul.simps f64_norm_Fin u w
    by (simp add: py_div_f64_def f64_norm_def)
qed

lemma concentration_f64_hot:
  "calc_concentration_loss_f64 1
     ((FuelCellParameters_init (2 ^ 1021) 3 3)\<lparr>i_limit := 1\<rparr>) = Inr PInf"
proof -
  from guard_chain_unit obtain l where
    l: "f64_norm (np_log (f64_norm (np_sub (Fin 1)
           (f64_norm (np_true_divide
              (np_minimum (f64_round 1)
                 (f64_norm (np_sub (f64_round 1) (f64_round 0.0001))))
              (f64_round 1)))))) = Fin l"
    and lb: "l \<le> - 0.89" by blast
  have rest: "f64_norm (np_mul (np_neg PInf) (Fin l)) = PInf"
    using lb by (simp add: f64_norm_def inf_signed_def)
  let ?p = "(FuelCellParameters_init (2 ^ 1021) 3 3)\<lparr>i_limit := 1\<rparr>"
  have fields: "R ?p = 8.314" "T ?p = 2 ^ 1021" "F ?p = 96485" "i_limit ?p = 1"
    by (simp_all add: FuelCellParameters_init_def)
  show ?thesis
    by (simp only: calc_concentration_loss_f64_def Let_def fields term_conc_f64_overflow
        sum.case l rest)
qed

lemma concentration_f64_finite_example:
  "\<exists>v. calc_concentration_loss_f64 1 ((FuelCellParameters_init 353 3 3)\<lparr>i_limit := 1\<rparr>)
         = Inr (Fin v) \<and> 0.012 \<le> v \<and> v \<le> 244"
proof -
  from term_conc_f64 obtain tc where
    tc: "py_div_f64 (f64_norm (np_mul (f64_round 8.314) (f64_round 353)))
           (f64_norm (np_mul (Fin 2) (f64_round 96485))) = Inr (Fin tc)"
    and tcb: "0.014 \<le> tc" "tc \<le> 0.017" by blast
  from guard_chain_unit obtain l where
    l: "f64_norm (np_log (f64_norm (np_sub (Fin 1)
           (f64_norm (np_true_divide
              (np_minimum (f64_round 1)
                 (f64_norm (np_sub (f64_round 1) (f64_round 0.0001))))
              (f64_round 1)))))) = Fin l"
    and lb: "- 14300 \<le> l" "l \<le> - 0.89" by blast
  from tcb lb have "0.014 * 0.89 \<le> tc * (- l)" and "tc * (- l) \<le> 0.017 * 14300"
    by (intro mult_mono; simp)+
  then have x: "0.01246 \<le> - tc * l" "- tc * l \<le> 243.1" by simp_all
  obtain v where v: "f64_round (- tc * l) = Fin v" and vb: "0.012 \<le> v" "v \<le> 244"
    by (rule f64_round_in [OF x, of "0.012" 244]) simp_all
  have rest: "f64_norm (np_mul (np_neg (Fin tc)) (Fin l)) = Fin v"
    by (simp only: np_neg.simps np_mul.simps f64_norm_Fin v)
  let ?p = "(FuelCellParameters_init 353 3 3)\<lparr>i_limit := 1\<rparr>"
  have fields: "R ?p = 8.314" "T ?p = 353" "F ?p = 96485" "i_limit ?p = 1"
    by (simp_all add: FuelCellParameters_init_def)
  have "calc_concentration_loss_f64 1 ?p = Inr (Fin v)"
    by (simp only: calc_concentration_loss_f64_def Let_def fields tc sum.case l rest)
  with vb show ?thesis by blast
qed

lemma f64_round_2_40: "f64_round (2 ^ 40) = Fin (2 ^ 40)"
  by (rule f64_round_near [where n = 40 and k = "2 ^ 52"]) simp_all

lemma guard_kept_at_2_40:
  "f64_norm (np_sub (Fin (2 ^ 40)) (f64_round 0.0001)) = Fin (2 ^ 40 - 1 / 2 ^ 13)"
proof -
  from f64_literal_guard obtain c where
    c: "f64_round 0.0001 = Fin c" and cb: "0.000099 \<le> c" "c \<le> 0.000101" by blast
  have "f64_round (2 ^ 40 - c) = Fin (2 ^ 40 - 1 / 2 ^ 13)"
  proof (rule f64_round_near [where n = 39 and k = "2 ^ 53 - 1"])
    show "2 powi 39 \<le> \<bar>2 ^ 40 - c\<bar>" using cb by simp
    show "\<bar>2 ^ 40 - c\<bar> < 2 powi (39 + 1)" using cb by simp
    show "- 1022 \<le> (39::int)" by simp
    show "(2 ^ 40 - 1 / 2 ^ 13 :: real) = real_of_int (2 ^ 53 - 1) * 2 powi (39 - 52)" by simp
    show "\<bar>2 ^ 40 - c - (2 ^ 40 - 1 / 2 ^ 13)\<bar> < 2 powi (39 - 52) / 2" using cb by simp
    show "\<bar>2 ^ 40 - 1 / 2 ^ 13 :: real\<bar> < 2 ^ 1024" by simp
  qed
  then show ?thesis
    unfolding c by (simp only: np_sub_def np_neg.simps np_add.simps f64_norm_Fin
        diff_conv_add_uminus [symmetric])
qed

lemma f64_round_below_1: "f64_round (1 - 1 / 2 ^ 53) = Fin (1 - 1 / 2 ^ 53)"
  by (rule f64_round_near [where n = "- 1" and k = "2 ^ 53 - 1"]) simp_all

lemma f64_round_2_m53: "f64_round (1 / 2 ^ 53) = Fin (1 / 2 ^ 53)"
  by (rule f64_round_near [where n = "- 53" and k = "2 ^ 52"]) simp_all

lemma concentration_f64_at_bound:
  "\<exists>v. calc_concentration_loss_f64 (2 ^ 40)
          ((FuelCellParameters_init 353 3 3)\<lparr>i_limit := 2 ^ 40\<rparr>) = Inr (Fin v)
       \<and> 0.013 \<le> v"
proof -
  from term_conc_f64 obtain tc where
    tc: "py_div_f64 (f64_norm (np_mul (f64_round 8.314) (f64_round 353)))
           (f64_norm (np_mul (Fin 2) (f64_round 96485))) = Inr (Fin tc)"
    and tcb: "0.014 \<le> tc" "tc \<le> 0.017" by blast
  have m: "min (2 ^ 40) (2 ^ 40 - 1 / 2 ^ 13) = (2 ^ 40 - 1 / 2 ^ 13 :: real)" by simp
  have dv: "np_true_divide (Fin (2 ^ 40 - 1 / 2 ^ 13)) (Fin (2 ^ 40)) = Fin (1 - 1 / 2 ^ 53)"
    by (simp add: np_divide_def)
  have sb: "np_sub (Fin 1) (Fin (1 - 1 / 2 ^ 53)) = Fin (1 / 2 ^ 53)"
    by (simp add: np_sub_def)
  define d :: real where "d = 1 / 2 ^ 53"
  have dpos: "0 < d" by (simp add: d_def)
  have lg: "np_log (Fin (1 / 2 ^ 53)) = Fin (ln d)"
    using dpos by (simp add: d_def)
  have "ln d \<le> d - 1" using dpos by (rule ln_le_minus_one)
  then have l2: "ln d \<le> - 0.99" by (simp add: d_def)
  have "1 - 1 / d \<le> ln d" using dpos by (rule ln_lower)
  then have l1: "- (2 ^ 53) \<le> ln d" by (simp add: d_def)
  obtain l where l: "f64_round (ln d) = Fin l"
    and lb: "- (2 ^ 53) + (- (2 ^ 53)) / 2 ^ 53 \<le> l" "l \<le> - 0.99 - (- 0.99) / 2 ^ 53"
    by (rule f64_round_neg_in [OF l1 l2]) simp_all
  from lb have lb': "- (2 ^ 53 + 1) \<le> l" "l \<le> - 0.98" by simp_all
  from tcb lb' have "0.014 * 0.98 \<le> tc * (- l)" and "tc * (- l) \<le> 0.017 * (2 ^ 53 + 1)"
    by (intro mult_mono; simp)+
  then have x: "0.01372 \<le> - tc * l" "- tc * l \<le> 0.017 * (2 ^ 53 + 1)" by simp_all
  obtain v where v: "f64_round (- tc * l) = Fin v" and vb: "0.013 \<le> v" "v \<le> 2 ^ 53"
    by (rule f64_round_in [OF x, of "0.013" "2 ^ 53"]) simp_all
  have rest: "f64_norm (np_mul (np_neg (Fin tc)) (Fin l)) = Fin v"
    by (simp only: np_neg.simps np_mul.simps f64_norm_Fin v)
  let ?p = "(FuelCellParameters_init 353 3 3)\<lparr>i_limit := 2 ^ 40\<rparr>"
  have fields: "R ?p = 8.314" "T ?p = 353" "F ?p = 96485" "i_limit ?p = 2 ^ 40"
    by (simp_all add: FuelCellParameters_init_def)
  have "calc_concentration_loss_f64 (2 ^ 40) ?p = Inr (Fin v)"
    by (simp only: calc_concentration_loss_f64_def Let_def fields tc sum.case
        f64_round_2_40 guard_kept_at_2_40 np_minimum.simps m dv f64_norm_Fin
        f64_round_below_1 sb f64_round_2_m53 lg l rest)
  with vb show ?thesis by blast
qed

text \<open>
  Claim C5 as stated fails in float64 outside those bounds. At the first double above
  \<open>2 ^ 40\<close> the subtraction \<open>i_limit - 1e-4\<close> rounds back to \<open>i_limit\<close>, the
  logarithm is taken at zero and the loss is \<open>inf\<close>; at the smallest denormal limit the
  quotient overflows and the loss is \<open>-inf\<close>; at \<open>T = 2 ^ 1021\<close> the product
  \<open>R * T\<close> overflows and the loss is \<open>inf\<close>. (At \<open>i_limit = 2 ^ 40\<close> itself and at
  \<open>i_limit = 1\<close> the float64 result is finite, as shown above.)
\<close>

theorem concentration_f64_guard_lost:
  "calc_concentration_loss_f64 (2 ^ 40 + 1 / 2 ^ 12)
     ((FuelCellParameters_init 353 3 3)\<lparr>i_limit := 2 ^ 40 + 1 / 2 ^ 12\<rparr>) = Inr PInf
   \<and> calc_concentration_loss_f64 (2 powi (- 1074))
       ((FuelCellParameters_init 353 3 3)\<lparr>i_limit := 2 powi (- 1074)\<rparr>) = Inr NInf
   \<and> calc_concentration_loss_f64 1
       ((FuelCellParameters_init (2 ^ 1021) 3 3)\<lparr>i_limit := 1\<rparr>) = Inr PInf"
  by (intro conjI concentration_f64_absorbed concentration_f64_tiny_limit
      concentration_f64_hot)

lemma concentration_value:
  assumes "F params \<noteq> 0" and "0 < i_limit params" and "i \<le> i_limit params - 0.0001"
  shows "calc_concentration_loss i params =
      Inr (Fin (- (R params * T params / (2 * F params)) * ln (1 - i / i_limit params)))"
proof -
  from assms(3) have s: "i_safe_elem params i = i" by (simp add: i_safe_elem_def)
  from assms(1) have dv: "py_div (R params * T params) (2 * F params)
      = Inr (R params * T params / (2 * F params))"
    by (simp add: py_div_def)
  from assms(2,3) have "i < i_limit params" by simp
  with assms(2) have "i / i_limit params < 1" by simp
  then have pos: "0 < 1 - i / i_limit params" by simp
  from assms(2) have "np_sub (Fin 1) (np_divide i (i_limit params))
      = Fin (1 - i / i_limit params)"
    by (simp add: np_sub_def np_divide_def)
  with pos have ve: "v_conc_elem params c i = Fin (- c * ln (1 - i / i_limit params))" for c
    by (simp add: v_conc_elem_def)
  show ?thesis
    unfolding calc_concentration_loss_def Let_def s dv ve by simp
qed

lemma concentration_clamped:
  assumes "i_limit params - 0.0001 \<le> i"
  shows "calc_concentration_loss i params
      = calc_concentration_loss (i_limit params - 0.0001) params"
  using assms by (simp add: calc_concentration_loss_def i_safe_elem_def)

text \<open>
  Claim C6, as the code has it: with the constructor's constants, \<open>T > 0\<close> and
  \<open>i_limit > 0\<close>, the concentration loss is finite and strictly increasing in the
  current density up to the clamp, that is for \<open>i1 < i2 \<le> i_limit - 1e-4\<close>; from the
  clamp on it is constant.
\<close>

theorem concentration_increasing_below_clamp:
  assumes "std_constants params" and "0 < T params" and "0 < i_limit params"
  shows "(i1 < i2 \<and> i2 \<le> i_limit params - 0.0001 \<longrightarrow>
            fin_less (calc_concentration_loss i1 params) (calc_concentration_loss i2 params))
    \<and> (i_limit params - 0.0001 \<le> i1 \<and> i_limit params - 0.0001 \<le> i2 \<longrightarrow>
            calc_concentration_loss i1 params = calc_concentration_loss i2 params)"
proof (intro conjI impI)
  assume h: "i1 < i2 \<and> i2 \<le> i_limit params - 0.0001"
  from assms(1) have Fnz: "F params \<noteq> 0" by (simp add: std_constants_def)
  from assms(1,2) have c: "0 < R params * T params / (2 * F params)"
    by (simp add: std_constants_def)
  from h have le1: "i1 \<le> i_limit params - 0.0001" and le2: "i2 \<le> i_limit params - 0.0001"
    by simp_all
  from le2 have "i2 < i_limit params" by simp
  with assms(3) have "i2 / i_limit params < 1" by simp
  then have p2: "0 < 1 - i2 / i_limit params" by simp
  from h assms(3) have "i1 / i_limit params < i2 / i_limit params"
    by (simp add: divide_strict_right_mono)
  then have lt: "1 - i2 / i_limit params < 1 - i1 / i_limit params" by simp
  with p2 have p1: "0 < 1 - i1 / i_limit params" by simp
  from p1 p2 lt have "ln (1 - i2 / i_limit params) < ln (1 - i1 / i_limit params)"
    by simp
  from this c have "R params * T params / (2 * F params) * ln (1 - i2 / i_limit params)
      < R params * T params / (2 * F params) * ln (1 - i1 / i_limit params)"
    by (rule mult_strict_left_mono)
  then have "- (R params * T params / (2 * F params)) * ln (1 - i1 / i_limit params)
      < - (R params * T params / (2 * F params)) * ln (1 - i2 / i_limit params)"
    by simp
  then show "fin_less (calc_concentration_loss i1 params) (calc_concentration_loss i2 params)"
    unfolding concentration_value [OF Fnz assms(3) le1] concentration_value [OF Fnz assms(3) le2]
    by simp
next
  assume "i_limit params - 0.0001 \<le> i1 \<and> i_limit params - 0.0001 \<le> i2"
  then show "calc_concentration_loss i1 params = calc_concentration_loss i2 params"
    using concentration_clamped [of params i1] concentration_clamped [of params i2] by simp
qed

text \<open>
  The theorem at the repository's parameter set: the loss at \<open>0.5\<close> is below the loss
  at \<open>1\<close>, and the losses at \<open>1.8\<close> and at \<open>2\<close> agree.
\<close>

theorem concentration_increasing_below_clamp_witness:
  "std_constants (FuelCellParameters_init 353 3 3)
   \<and> 0 < T (FuelCellParameters_init 353 3 3)
   \<and> 0 < i_limit (FuelCellParameters_init 353 3 3)
   \<and> (0.5::real) < 1 \<and> 1 \<le> i_limit (FuelCellParameters_init 353 3 3) - 0.0001
   \<and> fin_less (calc_concentration_loss 0.5 (FuelCellParameters_init 353 3 3))
       (calc_concentration_loss 1 (FuelCellParameters_init 353 3 3))
   \<and> calc_concentration_loss 1.8 (FuelCellParameters_init 353 3 3)
       = calc_concentration_loss 2 (FuelCellParameters_init 353 3 3)"
proof -
  let ?p = "FuelCellParameters_init 353 3 3"
  have h: "std_constants ?p" "0 < T ?p" "0 < i_limit ?p"
    by (simp_all add: FuelCellParameters_init_def std_constants_def)
  have a1: "(0.5::real) < 1" and a2: "1 \<le> i_limit ?p - 0.0001"
    and b: "i_limit ?p - 0.0001 \<le> 1.8 \<and> i_limit ?p - 0.0001 \<le> 2"
    by (simp_all add: FuelCellParameters_init_def)
  from concentration_increasing_below_clamp [OF h, of "0.5" "1"] a1 a2
  have x: "fin_less (calc_concentration_loss 0.5 ?p) (calc_concentration_loss 1 ?p)"
    by blast
  from concentration_increasing_below_clamp [OF h, of "1.8" "2"] b
  have y: "calc_concentration_loss 1.8 ?p = calc_concentration_loss 2 ?p"
    by blast
  show ?thesis by (intro conjI h a1 a2 x y)
qed

text \<open>
  Claim C6 as stated fails inside the last \<open>1e-4\<close> of the interval: \<open>1.79995\<close> and
  \<open>1.79999\<close> are both in \<open>(0, 1.8)\<close> and are clamped to the same \<open>1.7999\<close>, so
  their losses are equal.
\<close>

theorem concentration_flat_above_clamp:
  "0 < i_limit (FuelCellParameters_init 353 3 3)
   \<and> (0::real) < 1.79995 \<and> (1.79995::real) < 1.79999
   \<and> 1.79999 < i_limit (FuelCellParameters_init 353 3 3)
   \<and> calc_concentration_loss 1.79995 (FuelCellParameters_init 353 3 3)
       = calc_concentration_loss 1.79999 (FuelCellParameters_init 353 3 3)
   \<and> \<not> fin_less (calc_concentration_loss 1.79995 (FuelCellParameters_init 353 3 3))
           (calc_concentration_loss 1.79999 (FuelCellParameters_init 353 3 3))"
proof -
  let ?p = "FuelCellParameters_init 353 3 3"
  have f: "i_limit ?p = 1.8" by (simp add: FuelCellParameters_init_def)
  have e: "calc_concentration_loss 1.79995 ?p = calc_concentration_loss 1.79999 ?p"
    by (simp add: calc_concentration_loss_def i_safe_elem_def f)
  then have n: "\<not> fin_less (calc_concentration_loss 1.79995 ?p)
      (calc_concentration_loss 1.79999 ?p)"
    by (simp add: fin_less_irrefl)
  show ?thesis using e n by (simp add: f)
qed

section \<open>The net voltage\<close>

lemma np_sub_Fin: "np_sub (Fin x) (Fin y) = Fin (x - y)"
  by (simp add: np_sub_def)

lemma activation_value:
  assumes "0 \<le> i" and "alpha params \<noteq> 0" and "F params \<noteq> 0"
  shows "calc_activation_loss i params =
      Inr (Fin (max 0 ((R params * T params / (2 * alpha params * F params))
                         * ln ((i + 0.000001) / 0.001))))"
proof -
  from assms(1) have "0 < (i + 0.000001) / 0.001" by simp
  then have lg: "np_log (Fin ((i + 0.000001) / 0.001)) = Fin (ln ((i + 0.000001) / 0.001))"
    by simp
  from assms(2,3) have dv: "py_div (R params * T params) (2 * alpha params * F params)
      = Inr (R params * T params / (2 * alpha params * F params))"
    by (simp add: py_div_def)
  show ?thesis
    unfolding calc_activation_loss_def dv v_act_elem_def Let_def lg by simp
qed

lemma first_sample_values:
  "sweep_current_density (FuelCellParameters_init 353 3 3) ! 0 = 0.001"
  "calc_nernst_voltage (FuelCellParameters_init 353 3 3) =
     Inr (Fin (1.229 - 0.00085 * (353 - 298.15)
               + (8.314 * 353 / (2 * 96485)) * ln (3 * sqrt 3)))"
  "calc_activation_loss 0.001 (FuelCellParameters_init 353 3 3) =
     Inr (Fin ((8.314 * 353 / (2 * 0.5 * 96485)) * ln ((0.001 + 0.000001) / 0.001)))"
  "calc_ohmic_loss 0.001 (FuelCellParameters_init 353 3 3) = Fin (0.001 * 0.2)"
  "calc_concentration_loss 0.001 (FuelCellParameters_init 353 3 3) =
     Inr (Fin (- (8.314 * 353 / (2 * 96485)) * ln (1 - 0.001 / 1.8)))"
proof -
  let ?p = "FuelCellParameters_init 353 3 3"
  have f: "R ?p = 8.314" "F ?p = 96485" "T ?p = 353" "P_H2 ?p = 3" "P_O2 ?p = 3"
    "alpha ?p = 0.5" "area_resistance ?p = 0.2" "i_limit ?p = 1.8"
    by (simp_all add: FuelCellParameters_init_def)
  show "sweep_current_density ?p ! 0 = 0.001" by (simp add: nth_sweep)
  have "F ?p \<noteq> 0" "0 < P_H2 ?p" "0 < P_O2 ?p" by (simp_all add: f)
  from nernst_value [OF this, unfolded f]
  show "calc_nernst_voltage ?p = Inr (Fin (1.229 - 0.00085 * (353 - 298.15)
              + (8.314 * 353 / (2 * 96485)) * ln (3 * sqrt 3)))" .
  have "0 \<le> (8.314 * 353 / (2 * 0.5 * 96485)) * ln ((0.001 + 0.000001) / 0.001 :: real)"
    by simp
  then have m: "max 0 ((8.314 * 353 / (2 * 0.5 * 96485)) * ln ((0.001 + 0.000001) / 0.001 :: real))
      = (8.314 * 353 / (2 * 0.5 * 96485)) * ln ((0.001 + 0.000001) / 0.001)"
    by (rule max_absorb2)
  have "(0::real) \<le> 0.001" "alpha ?p \<noteq> 0" "F ?p \<noteq> 0" by (simp_all add: f)
  from activation_value [OF this, unfolded f m]
  show "calc_activation_loss 0.001 ?p =
           Inr (Fin ((8.314 * 353 / (2 * 0.5 * 96485)) * ln ((0.001 + 0.000001) / 0.001)))" .
  show "calc_ohmic_loss 0.001 ?p = Fin (0.001 * 0.2)"
    by (simp add: calc_ohmic_loss_def f)
  have "F ?p \<noteq> 0" "0 < i_limit ?p" "0.001 \<le> i_limit ?p - 0.0001" by (simp_all add: f)
  from concentration_value [OF this, unfolded f]
  show "calc_concentration_loss 0.001 ?p =
           Inr (Fin (- (8.314 * 353 / (2 * 96485)) * ln (1 - 0.001 / 1.8)))" .
qed

text \<open>
  Claim C1: the simulation returns whenever \<open>alpha\<close> and \<open>F\<close> are not zero (the only
  failure is Python's division by zero), and whenever it returns, the net voltage at every
  index \<open>k\<close> of the 100 samples is \<open>E_nernst - v_act[k] - v_ohmic[k] - v_conc[k]\<close>,
  subtracted in this order, where \<open>E_nernst\<close> is the one value of
  \<open>calc_nernst_voltage\<close> and the three losses at \<open>k\<close> are what the three calculators
  return at the \<open>k\<close>-th current-density sample; they are also the three sequences of the
  returned breakdown. Where the four values are finite numbers \<open>e\<close>, \<open>a\<close>, \<open>b\<close>,
  \<open>c\<close>, the net voltage is the number \<open>e - a - b - c\<close>.
\<close>

theorem simulate_net_voltage:
  "(alpha params \<noteq> 0 \<and> F params \<noteq> 0 \<longrightarrow> (\<exists>r. simulate_fuel_cell params = Inr r))
   \<and> (simulate_fuel_cell params = Inr (cd, v_cell, p_cell, ls) \<longrightarrow>
        cd = sweep_current_density params \<and> length cd = 100 \<and> length v_cell = 100
        \<and> (\<exists>E_nernst v_act v_ohmic v_conc.
              calc_nernst_voltage params = Inr E_nernst
              \<and> ls = [v_act, v_ohmic, v_conc]
              \<and> (\<forall>k<100.
                    calc_activation_loss (cd ! k) params = Inr (v_act ! k)
                    \<and> calc_ohmic_loss (cd ! k) params = v_ohmic ! k
                    \<and> calc_concentration_loss (cd ! k) params = Inr (v_conc ! k)
                    \<and> v_cell ! k =
                        np_sub (np_sub (np_sub E_nernst (v_act ! k)) (v_ohmic ! k))
                          (v_conc ! k)
                    \<and> (\<forall>e a b c.
                          E_nernst = Fin e \<and> v_act ! k = Fin a
                          \<and> v_ohmic ! k = Fin b \<and> v_conc ! k = Fin c \<longrightarrow>
                          v_cell ! k = Fin (e - a - b - c)))))"
proof (intro conjI impI)
  assume "alpha params \<noteq> 0 \<and> F params \<noteq> 0"
  then show "\<exists>r. simulate_fuel_cell params = Inr r"
    using simulate_total by blast
next
  assume run: "simulate_fuel_cell params = Inr (cd, v_cell, p_cell, ls)"
  from simulate_Inr [OF run] obtain E_nernst v_act v_ohmic v_conc where
    cd: "cd = sweep_current_density params"
    and E: "calc_nernst_voltage params = Inr E_nernst"
    and act: "calc_activation_loss_array cd params = Inr v_act"
    and ohm: "v_ohmic = calc_ohmic_loss_array cd params"
    and conc: "calc_concentration_loss_array cd params = Inr v_conc"
    and v: "v_cell = map2 (\<lambda>a c. np_sub a c)
                    (map2 (\<lambda>a b. np_sub a b) (map (np_sub E_nernst) v_act) v_ohmic) v_conc"
    and ls: "ls = [v_act, v_ohmic, v_conc]"
    by blast
  show "cd = sweep_current_density params" by (fact cd)
  show len: "length cd = 100" by (simp add: cd length_sweep)
  have la: "length v_act = 100" using activation_array_nth(1) [OF act] len by simp
  have lo: "length v_ohmic = 100" using ohmic_array_nth(1) [of cd params] len ohm by simp
  have lc: "length v_conc = 100" using concentration_array_nth(1) [OF conc] len by simp
  show "length v_cell = 100" by (simp add: v la lo lc)
  have "\<forall>k<100.
          calc_activation_loss (cd ! k) params = Inr (v_act ! k)
          \<and> calc_ohmic_loss (cd ! k) params = v_ohmic ! k
          \<and> calc_concentration_loss (cd ! k) params = Inr (v_conc ! k)
          \<and> v_cell ! k =
              np_sub (np_sub (np_sub E_nernst (v_act ! k)) (v_ohmic ! k)) (v_conc ! k)
          \<and> (\<forall>e a b c.
                E_nernst = Fin e \<and> v_act ! k = Fin a
                \<and> v_ohmic ! k = Fin b \<and> v_conc ! k = Fin c \<longrightarrow>
                v_cell ! k = Fin (e - a - b - c))"
  proof (intro allI impI conjI)
    fix k :: nat
    assume k: "k < 100"
    show "calc_activation_loss (cd ! k) params = Inr (v_act ! k)"
      using activation_array_nth(2) [OF act] k len by simp
    show "calc_ohmic_loss (cd ! k) params = v_ohmic ! k"
      using ohmic_array_nth(2) [of k cd params] k len ohm by simp
    show "calc_concentration_loss (cd ! k) params = Inr (v_conc ! k)"
      using concentration_array_nth(2) [OF conc] k len by simp
    show vk: "v_cell ! k =
        np_sub (np_sub (np_sub E_nernst (v_act ! k)) (v_ohmic ! k)) (v_conc ! k)"
      using k by (simp add: v la lo lc)
    fix e a b c :: real
    assume "E_nernst = Fin e \<and> v_act ! k = Fin a
                \<and> v_ohmic ! k = Fin b \<and> v_conc ! k = Fin c"
    then show "v_cell ! k = Fin (e - a - b - c)"
      unfolding vk by (simp add: np_sub_Fin)
  qed
  with E ls show "\<exists>E_nernst v_act v_ohmic v_conc.
      calc_nernst_voltage params = Inr E_nernst
      \<and> ls = [v_act, v_ohmic, v_conc]
      \<and> (\<forall>k<100.
            calc_activation_loss (cd ! k) params = Inr (v_act ! k)
            \<and> calc_ohmic_loss (cd ! k) params = v_ohmic ! k
            \<and> calc_concentration_loss (cd ! k) params = Inr (v_conc ! k)
            \<and> v_cell ! k =
                np_sub (np_sub (np_sub E_nernst (v_act ! k)) (v_ohmic ! k)) (v_conc ! k)
            \<and> (\<forall>e a b c.
                  E_nernst = Fin e \<and> v_act ! k = Fin a
                  \<and> v_ohmic ! k = Fin b \<and> v_conc ! k = Fin c \<longrightarrow>
                  v_cell ! k = Fin (e - a - b - c)))"
    by (intro exI conjI)
qed

text \<open>
  The theorem at the repository's parameter set \<open>FuelCellParameters(353, 3.0, 3.0)\<close>:
  the simulation returns, and at the first sample \<open>0.001\<close> the net voltage is the Nernst
  voltage minus the three losses, each given by its formula.
\<close>

theorem simulate_net_voltage_witness:
  "\<exists>cd v_cell p_cell v_act v_ohmic v_conc.
     simulate_fuel_cell (FuelCellParameters_init 353 3 3)
       = Inr (cd, v_cell, p_cell, [v_act, v_ohmic, v_conc])
     \<and> length v_cell = 100
     \<and> cd ! 0 = 0.001
     \<and> v_act ! 0 = Fin ((8.314 * 353 / (2 * 0.5 * 96485)) * ln ((0.001 + 0.000001) / 0.001))
     \<and> v_ohmic ! 0 = Fin (0.001 * 0.2)
     \<and> v_conc ! 0 = Fin (- (8.314 * 353 / (2 * 96485)) * ln (1 - 0.001 / 1.8))
     \<and> v_cell ! 0 =
         Fin ((1.229 - 0.00085 * (353 - 298.15) + (8.314 * 353 / (2 * 96485)) * ln (3 * sqrt 3))
              - (8.314 * 353 / (2 * 0.5 * 96485)) * ln ((0.001 + 0.000001) / 0.001)
              - 0.001 * 0.2
              - (- (8.314 * 353 / (2 * 96485)) * ln (1 - 0.001 / 1.8)))"
proof -
  let ?p = "FuelCellParameters_init 353 3 3"
  have nz: "alpha ?p \<noteq> 0 \<and> F ?p \<noteq> 0"
    by (simp add: FuelCellParameters_init_def)
  have "alpha ?p \<noteq> 0 \<and> F ?p \<noteq> 0 \<longrightarrow> (\<exists>r. simulate_fuel_cell ?p = Inr r)"
    using simulate_net_voltage [of ?p] by (rule conjunct1)
  with nz obtain r where "simulate_fuel_cell ?p = Inr r"
    by blast
  then obtain cd v_cell p_cell ls where
    run: "simulate_fuel_cell ?p = Inr (cd, v_cell, p_cell, ls)"
    by (cases r) auto
  have "simulate_fuel_cell ?p = Inr (cd, v_cell, p_cell, ls) \<longrightarrow>
        cd = sweep_current_density ?p \<and> length cd = 100 \<and> length v_cell = 100
        \<and> (\<exists>E_nernst v_act v_ohmic v_conc.
              calc_nernst_voltage ?p = Inr E_nernst
              \<and> ls = [v_act, v_ohmic, v_conc]
              \<and> (\<forall>k<100.
                    calc_activation_loss (cd ! k) ?p = Inr (v_act ! k)
                    \<and> calc_ohmic_loss (cd ! k) ?p = v_ohmic ! k
                    \<and> calc_concentration_loss (cd ! k) ?p = Inr (v_conc ! k)
                    \<and> v_cell ! k =
                        np_sub (np_sub (np_sub E_nernst (v_act ! k)) (v_ohmic ! k))
                          (v_conc ! k)
                    \<and> (\<forall>e a b c.
                          E_nernst = Fin e \<and> v_act ! k = Fin a
                          \<and> v_ohmic ! k = Fin b \<and> v_conc ! k = Fin c \<longrightarrow>
                          v_cell ! k = Fin (e - a - b - c))))"
    using simulate_net_voltage [of ?p cd v_cell p_cell ls] by (rule conjunct2)
  from this run have
    "cd = sweep_current_density ?p \<and> length cd = 100 \<and> length v_cell = 100
        \<and> (\<exists>E_nernst v_act v_ohmic v_conc.
              calc_nernst_voltage ?p = Inr E_nernst
              \<and> ls = [v_act, v_ohmic, v_conc]
              \<and> (\<forall>k<100.
                    calc_activation_loss (cd ! k) ?p = Inr (v_act ! k)
                    \<and> calc_ohmic_loss (cd ! k) ?p = v_ohmic ! k
                    \<and> calc_concentration_loss (cd ! k) ?p = Inr (v_conc ! k)
                    \<and> v_cell ! k =
                        np_sub (np_sub (np_sub E_nernst (v_act ! k)) (v_ohmic ! k))
                          (v_conc ! k)
                    \<and> (\<forall>e a b c.
                          E_nernst = Fin e \<and> v_act ! k = Fin a
                          \<and> v_ohmic ! k = Fin b \<and> v_conc ! k = Fin c \<longrightarrow>
                          v_cell ! k = Fin (e - a - b - c))))"
    by (rule mp)
  then obtain E_nernst v_act v_ohmic v_conc where
    cd: "cd = sweep_current_density ?p"
    and len: "length v_cell = 100"
    and E: "calc_nernst_voltage ?p = Inr E_nernst"
    and ls: "ls = [v_act, v_ohmic, v_conc]"
    and pt: "\<forall>k<100.
                    calc_activation_loss (cd ! k) ?p = Inr (v_act ! k)
                    \<and> calc_ohmic_loss (cd ! k) ?p = v_ohmic ! k
                    \<and> calc_concentration_loss (cd ! k) ?p = Inr (v_conc ! k)
                    \<and> v_cell ! k =
                        np_sub (np_sub (np_sub E_nernst (v_act ! k)) (v_ohmic ! k))
                          (v_conc ! k)
                    \<and> (\<forall>e a b c.
                          E_nernst = Fin e \<and> v_act ! k = Fin a
                          \<and> v_ohmic ! k = Fin b \<and> v_conc ! k = Fin c \<longrightarrow>
                          v_cell ! k = Fin (e - a - b - c))"
    by (elim conjE exE)
  have c0: "cd ! 0 = 0.001" by (simp add: cd first_sample_values(1))
  have z: "(0::nat) < 100" by simp
  note q = pt [THEN spec, THEN mp, OF z]
  note p0 = q [THEN conjunct1] q [THEN conjunct2, THEN conjunct1]
    q [THEN conjunct2, THEN conjunct2, THEN conjunct1]
  note fin0 = q [THEN conjunct2, THEN conjunct2, THEN conjunct2, THEN conjunct2]
  from E have e: "E_nernst = Fin (1.229 - 0.00085 * (353 - 298.15)
      + (8.314 * 353 / (2 * 96485)) * ln (3 * sqrt 3))"
    unfolding first_sample_values(2) by simp
  from p0(1) have a: "v_act ! 0 =
      Fin ((8.314 * 353 / (2 * 0.5 * 96485)) * ln ((0.001 + 0.000001) / 0.001))"
    unfolding c0 first_sample_values(3) by simp
  from p0(2) have b: "v_ohmic ! 0 = Fin (0.001 * 0.2)"
    unfolding c0 first_sample_values(4) by simp
  from p0(3) have c: "v_conc ! 0 = Fin (- (8.314 * 353 / (2 * 96485)) * ln (1 - 0.001 / 1.8))"
    unfolding c0 first_sample_values(5) by simp
  from fin0 e a b c have v: "v_cell ! 0 =
         Fin ((1.229 - 0.00085 * (353 - 298.15) + (8.314 * 353 / (2 * 96485)) * ln (3 * sqrt 3))
              - (8.314 * 353 / (2 * 0.5 * 96485)) * ln ((0.001 + 0.000001) / 0.001)
              - 0.001 * 0.2
              - (- (8.314 * 353 / (2 * 96485)) * ln (1 - 0.001 / 1.8)))"
    by blast
  from run have run': "simulate_fuel_cell ?p = Inr (cd, v_cell, p_cell, [v_act, v_ohmic, v_conc])"
    unfolding ls .
  show ?thesis
    by (intro exI conjI) (rule run' len c0 a b c v)+
qed

end
